theory Spec2Isabelle
  imports
    Complex_Main
    "HOL-Library.AList"
    "HOL-Library.Char_ord"
    "HOL-Library.List_Lexorder"
    "HOL-Library.Multiset"
    "HOL-Library.Product_Lexorder"
begin

section \<open>Data model of \<open>analyze_imdb.py\<close>\<close>

text \<open>
  The script reads two tables with pandas and folds the title table, chunk by chunk,
  into a handful of accumulators; a finalisation phase turns the accumulators into
  the report tables. The embedding starts after \<open>pd.read_csv\<close>: a table is the list of
  its rows, a column that may hold \<open>NA\<close> is an \<open>option\<close>.

  Conventions of the embedding:
  \<^item> \<open>float64\<close> values are exact rationals (\<^typ>\<open>rat\<close>); rounding and infinities are
    outside the model. \<open>NaN\<close> in a column is \<open>None\<close>.
  \<^item> \<open>averageRating\<close> is read as \<open>float64\<close> with \<open>na_values\<close>, so a rating may be missing.
    \<open>numVotes\<close> is an \<open>int32\<close> column of the ratings table and so never missing there;
    the joined frame carries it as an optional value because the script itself guards
    against a missing vote count (\<open>dropna(subset=[..., "numVotes"])\<close>).
  \<^item> \<open>astype(int)\<close> yields \<open>int64\<close>: a value outside its range wraps around. Python's
    own \<open>int\<close> is unbounded.
  \<^item> \<open>pd.to_numeric(..., errors="coerce")\<close> is library code: it is the parameter \<open>num\<close>
    of the pipeline, a function from the text of a cell to a number, \<open>None\<close> where the
    text does not parse.
  \<^item> A Python \<open>dict\<close> (also \<open>defaultdict\<close>, \<open>Counter\<close>) is an association list in
    insertion order; \<open>AList.update\<close> overwrites in place or appends, as a \<open>dict\<close> does.
\<close>

datatype error = KeyError | ValueError

text \<open>A row of \<open>title.ratings\<close>: \<open>(tconst, averageRating, numVotes)\<close>.\<close>

type_synonym rating_row = "string \<times> rat option \<times> int"

text \<open>
  A row of \<open>title.basics\<close>. The type parameter is the type of the cells of
  \<open>startYear\<close> and \<open>runtimeMinutes\<close>: text as read, numbers after the coercion.
\<close>

record 'a title_row =
  tconst :: string
  titleType :: "string option"
  primaryTitle :: "string option"
  startYear :: "'a option"
  runtimeMinutes :: "'a option"
  genres :: "string option"

record 'a joined_row = "'a title_row" +
  averageRating :: "rat option"
  numVotes :: "int option"

record year_acc =
  weighted_sum :: rat
  votes :: int

record genre_acc = year_acc +
  count_n :: nat

text \<open>The columns kept for the top-by-votes candidates:
  \<open>(tconst, primaryTitle, startYear, averageRating, numVotes)\<close>.\<close>

type_synonym top_row = "string \<times> string option \<times> rat option \<times> rat option \<times> int option"

record aggregators =
  movies_per_year :: "(int \<times> nat) list"
  year_weighted_sums :: "(int \<times> year_acc) list"
  genre_stats :: "(string \<times> genre_acc) list"
  runtime_minutes :: "rat list"
  top_titles_frames :: "top_row list list"
  scatter_frames :: "(rat option \<times> int option) list list"

section \<open>pandas primitives\<close>

text \<open>Python's \<open>int(...)\<close> on a float: truncation towards zero, unbounded.\<close>

definition py_int :: "rat \<Rightarrow> int" where
  "py_int q = (if 0 \<le> q then \<lfloor>q\<rfloor> else \<lceil>q\<rceil>)"

text \<open>\<open>astype(int)\<close> on a float column: truncation towards zero into \<open>int64\<close>, with
  wrap-around modulo \<open>2^64\<close> outside \<open>[-2^63, 2^63)\<close>. (Within the range this is what
  numpy does; what an out-of-range float is cast to depends on the platform.)\<close>

definition astype_int :: "rat \<Rightarrow> int" where
  "astype_int q =
     (py_int q + 9223372036854775808) mod 18446744073709551616 - 9223372036854775808"

text \<open>\<open>Series.sum()\<close> skips missing values (\<open>skipna=True\<close>).\<close>

definition nansum :: "rat option list \<Rightarrow> rat" where
  "nansum xs = sum_list (map (\<lambda>x. case x of None \<Rightarrow> 0 | Some q \<Rightarrow> q) xs)"

text \<open>\<open>str.split(sep)\<close>: never the empty list; an empty text gives one empty token.\<close>

fun str_split :: "char \<Rightarrow> string \<Rightarrow> string list" where
  "str_split c [] = [[]]"
| "str_split c (x # xs) =
     (if x = c then [] # str_split c xs
      else (case str_split c xs of
              [] \<Rightarrow> [[x]]
            | w # ws \<Rightarrow> (x # w) # ws))"

text \<open>\<open>value_counts()\<close> as a dictionary: every distinct value with the number of its
  occurrences. (pandas orders it by count; the order is not observable, the counter
  below is only read through \<open>sorted(items())\<close>.)\<close>

definition value_counts :: "int list \<Rightarrow> (int \<times> nat) list" where
  "value_counts ys = map (\<lambda>y. (y, count_list ys y)) (remdups ys)"

text \<open>\<open>Counter.update(d)\<close>: add the counts of \<open>d\<close>, key by key.\<close>

definition counter_get :: "(int \<times> nat) list \<Rightarrow> int \<Rightarrow> nat" where
  "counter_get c k = (case map_of c k of None \<Rightarrow> 0 | Some n \<Rightarrow> n)"

definition counter_update :: "(int \<times> nat) list \<Rightarrow> (int \<times> nat) list \<Rightarrow> (int \<times> nat) list" where
  "counter_update c d = foldl (\<lambda>c (k, n). AList.update k (counter_get c k + n) c) c d"

text \<open>Reading a \<open>defaultdict\<close>: a missing key reads as the default payload.\<close>

definition year_default :: year_acc where
  "year_default = \<lparr>weighted_sum = 0, votes = 0\<rparr>"

definition genre_default :: genre_acc where
  "genre_default = \<lparr>weighted_sum = 0, votes = 0, count_n = 0\<rparr>"

definition year_get :: "(int \<times> year_acc) list \<Rightarrow> int \<Rightarrow> year_acc" where
  "year_get d k = (case map_of d k of None \<Rightarrow> year_default | Some p \<Rightarrow> p)"

definition genre_get :: "(string \<times> genre_acc) list \<Rightarrow> string \<Rightarrow> genre_acc" where
  "genre_get d k = (case map_of d k of None \<Rightarrow> genre_default | Some p \<Rightarrow> p)"

section \<open>The streaming loop\<close>

text \<open>\<open>ratings_df = pd.read_csv(...).set_index("tconst")\<close>: the index is not checked
  for uniqueness, every row of the input is kept, in input order.\<close>

definition set_index :: "rating_row list \<Rightarrow> rating_row list" where
  "set_index rows = rows"

text \<open>The rating records found under an identifier.\<close>

definition lookup :: "rating_row list \<Rightarrow> string \<Rightarrow> (rat option \<times> int) list" where
  "lookup ratings_df k = map snd (filter (\<lambda>r. fst r = k) ratings_df)"

text \<open>\<open>movies.join(ratings_df, how="inner", on="tconst")\<close>: one output row for every
  pair of a title row and a rating record with the same identifier; a title without
  a rating is dropped.\<close>

definition join_inner :: "string title_row list \<Rightarrow> rating_row list \<Rightarrow> string joined_row list" where
  "join_inner movies ratings_df =
     concat (map (\<lambda>m. map (\<lambda>(r, v).
         \<lparr>tconst = tconst m, titleType = titleType m, primaryTitle = primaryTitle m,
          startYear = startYear m, runtimeMinutes = runtimeMinutes m, genres = genres m,
          averageRating = r, numVotes = Some v\<rparr>) (lookup ratings_df (tconst m))) movies)"

text \<open>Lines 110-111: both text columns are replaced by their numeric coercion.\<close>

definition coerce :: "(string \<Rightarrow> rat option) \<Rightarrow> string joined_row \<Rightarrow> rat joined_row" where
  "coerce num m =
     \<lparr>tconst = tconst m, titleType = titleType m, primaryTitle = primaryTitle m,
      startYear = Option.bind (startYear m) num,
      runtimeMinutes = Option.bind (runtimeMinutes m) num, genres = genres m,
      averageRating = averageRating m, numVotes = numVotes m\<rparr>"

definition chunk_movies ::
  "(string \<Rightarrow> rat option) \<Rightarrow> rating_row list \<Rightarrow> string title_row list \<Rightarrow> rat joined_row list" where
  "chunk_movies num ratings_df chunk =
     map (coerce num) (join_inner (filter (\<lambda>r. titleType r = Some ''movie'') chunk) ratings_df)"

text \<open>\<open>group["numVotes"].astype(float)\<close> and \<open>group["averageRating"] * votes\<close>, per row:
  the product is missing when the rating or the vote count is.\<close>

definition votes_float :: "rat joined_row \<Rightarrow> rat option" where
  "votes_float m = map_option of_int (numVotes m)"

definition rating_times_votes :: "rat joined_row \<Rightarrow> rat option" where
  "rating_times_votes m =
     (case averageRating m of
        None \<Rightarrow> None
      | Some r \<Rightarrow> map_option (\<lambda>v. r * v) (votes_float m))"

definition year_key :: "rat joined_row \<Rightarrow> int option" where
  "year_key m = map_option astype_int (startYear m)"

text \<open>Lines 119-122, the body of the loop over the groups of one chunk.\<close>

definition add_year_group ::
  "rat joined_row list \<Rightarrow> (int \<times> year_acc) list \<Rightarrow> int \<Rightarrow> (int \<times> year_acc) list" where
  "add_year_group valid_years d year =
     (let group = filter (\<lambda>m. year_key m = Some year) valid_years;
          payload = year_get d year
      in AList.update year
           \<lparr>weighted_sum = weighted_sum payload + nansum (map rating_times_votes group),
            votes = votes payload + py_int (nansum (map votes_float group))\<rparr> d)"

text \<open>Lines 116-122. \<open>groupby\<close> visits the keys in ascending order.\<close>

definition update_years ::
  "rat joined_row list \<Rightarrow> (int \<times> year_acc) list \<Rightarrow> (int \<times> year_acc) list" where
  "update_years movies d =
     (let valid_years = filter (\<lambda>m. startYear m \<noteq> None \<and> numVotes m \<noteq> None) movies
      in foldl (add_year_group valid_years) d
           (sort (remdups (List.map_filter year_key valid_years))))"

text \<open>The sentinel text \<open>\N\<close>.\<close>

definition sentinel :: string where
  "sentinel = [CHR 0x5C, CHR ''N'']"

text \<open>Lines 136-137: one row per genre token, the sentinel token removed.\<close>

definition explode_genres :: "rat joined_row list \<Rightarrow> (rat joined_row \<times> string) list" where
  "explode_genres genre_chunk =
     filter (\<lambda>(m, g). g \<noteq> sentinel)
       (concat (map (\<lambda>m. case genres m of
                            None \<Rightarrow> []
                          | Some s \<Rightarrow> map (\<lambda>g. (m, g)) (str_split CHR '','' s)) genre_chunk))"

definition add_genre_group ::
  "(rat joined_row \<times> string) list \<Rightarrow> (string \<times> genre_acc) list \<Rightarrow> string
     \<Rightarrow> (string \<times> genre_acc) list" where
  "add_genre_group exploded d genre =
     (let group = map fst (filter (\<lambda>(m, g). g = genre) exploded);
          payload = genre_get d genre
      in AList.update genre
           \<lparr>weighted_sum = weighted_sum payload + nansum (map rating_times_votes group),
            votes = votes payload + py_int (nansum (map votes_float group)),
            count_n = count_n payload + length group\<rparr> d)"

definition update_genres ::
  "rat joined_row list \<Rightarrow> (string \<times> genre_acc) list \<Rightarrow> (string \<times> genre_acc) list" where
  "update_genres movies d =
     (let genre_chunk = filter (\<lambda>m. genres m \<noteq> None) movies
      in if genre_chunk = [] then d
         else (let exploded = explode_genres genre_chunk
               in foldl (add_genre_group exploded) d (sort (remdups (map snd exploded)))))"

definition top_cols :: "rat joined_row \<Rightarrow> top_row" where
  "top_cols m = (tconst m, primaryTitle m, startYear m, averageRating m, numVotes m)"

definition popular_subset :: "rat joined_row list \<Rightarrow> (rat option \<times> int option) list" where
  "popular_subset movies =
     map (\<lambda>m. (averageRating m, numVotes m))
       (filter (\<lambda>m. case numVotes m of None \<Rightarrow> False | Some v \<Rightarrow> 50000 \<le> v) movies)"

text \<open>Lines 113-142: what one chunk's joined movies do to the accumulators.\<close>

definition accumulate :: "aggregators \<Rightarrow> rat joined_row list \<Rightarrow> aggregators" where
  "accumulate s movies =
     \<lparr>movies_per_year =
        counter_update (movies_per_year s)
          (value_counts (map astype_int (List.map_filter startYear movies))),
      year_weighted_sums = update_years movies (year_weighted_sums s),
      genre_stats = update_genres movies (genre_stats s),
      runtime_minutes = runtime_minutes s @ List.map_filter runtimeMinutes movies,
      top_titles_frames = top_titles_frames s @ [map top_cols movies],
      scatter_frames =
        (if popular_subset movies = [] then scatter_frames s
         else scatter_frames s @ [popular_subset movies])\<rparr>"

definition init_aggregators :: aggregators where
  "init_aggregators =
     \<lparr>movies_per_year = [], year_weighted_sums = [], genre_stats = [],
      runtime_minutes = [], top_titles_frames = [], scatter_frames = []\<rparr>"

definition process_chunk ::
  "(string \<Rightarrow> rat option) \<Rightarrow> rating_row list \<Rightarrow> aggregators \<Rightarrow> string title_row list \<Rightarrow> aggregators" where
  "process_chunk num ratings_df s chunk = accumulate s (chunk_movies num ratings_df chunk)"

text \<open>Lines 105-146: the loop over the chunks.\<close>

definition stream ::
  "(string \<Rightarrow> rat option) \<Rightarrow> rating_row list \<Rightarrow> string title_row list list \<Rightarrow> aggregators" where
  "stream num ratings_df chunks = foldl (process_chunk num ratings_df) init_aggregators chunks"

section \<open>Finalisation\<close>

text \<open>Lines 150-155. \<open>sorted(items())\<close> orders the pairs, \<open>sort_values("year")\<close> the
  rows by year; then the rows before 1900 are cut off.\<close>

definition movies_per_year_df :: "(int \<times> nat) list \<Rightarrow> (int \<times> nat) list" where
  "movies_per_year_df c = filter (\<lambda>(year, n). 1900 \<le> year) (sort_key fst (sort c))"

text \<open>Line 274.\<close>

definition total_rated_movies :: "(int \<times> nat) list \<Rightarrow> int" where
  "total_rated_movies c = int (sum_list (map snd (movies_per_year_df c)))"

text \<open>Lines 157-167. A row of the table: \<open>(year, weighted_average_rating, votes)\<close>.
  \<open>pd.DataFrame([])\<close> has no columns, so \<open>dropna(subset=["weighted_average_rating"])\<close>
  raises \<open>KeyError\<close> when the accumulator has no key at all.\<close>

type_synonym yearly_row = "int \<times> rat option \<times> int"

definition yearly_rating_records :: "(int \<times> year_acc) list \<Rightarrow> yearly_row list" where
  "yearly_rating_records d =
     map (\<lambda>(year, payload).
            (year,
             (if votes payload \<noteq> 0 then Some (weighted_sum payload / of_int (votes payload))
              else None),
             votes payload)) d"

definition yearly_ratings_df :: "(int \<times> year_acc) list \<Rightarrow> error + yearly_row list" where
  "yearly_ratings_df d =
     (let records = yearly_rating_records d
      in if records = [] then Inl KeyError
         else Inr (sort_key fst (filter (\<lambda>(year, avg, v). avg \<noteq> None) records)))"

text \<open>Lines 200-217. A row: \<open>(genre, title_count, total_votes, weighted_average_rating)\<close>.
  The sort is descending by \<open>total_votes\<close>; rows with equal keys stay in the order of
  the records (numpy's default sort may order them otherwise).\<close>

type_synonym genre_row = "string \<times> nat \<times> int \<times> rat option"

definition genre_records :: "(string \<times> genre_acc) list \<Rightarrow> genre_row list" where
  "genre_records d =
     map (\<lambda>(genre, payload).
            (genre, count_n payload, votes payload,
             (if votes payload \<noteq> 0 then Some (weighted_sum payload / of_int (votes payload))
              else None))) d"

definition genre_df :: "(string \<times> genre_acc) list \<Rightarrow> error + genre_row list" where
  "genre_df d =
     (let records = genre_records d
      in if records = [] then Inl KeyError
         else Inr (sort_key (\<lambda>(genre, n, total_votes, avg). - total_votes)
                     (filter (\<lambda>(genre, n, total_votes, avg). avg \<noteq> None) records)))"

text \<open>Bin edges: a number or \<open>float("inf")\<close>.\<close>

datatype edge = Fin rat | PInf

fun edge_le :: "edge \<Rightarrow> rat \<Rightarrow> bool" where
  "edge_le (Fin e) x = (e \<le> x)"
| "edge_le PInf x = False"

text \<open>\<open>pd.cut(x, bins, right=False)\<close> for one value: the index of the half-open bin
  \<open>[bins[i], bins[i+1])\<close> that holds \<open>x\<close>; no bin below the first edge, none from the
  last edge on.\<close>

definition cut_bin :: "edge list \<Rightarrow> rat \<Rightarrow> nat option" where
  "cut_bin bins x =
     (let i = length (filter (\<lambda>e. edge_le e x) bins)
      in if i = 0 \<or> i = length bins then None else Some (i - 1))"

fun series_max :: "rat list \<Rightarrow> rat option" where
  "series_max [] = None"
| "series_max (x # xs) = Some (fold max xs x)"

definition runtime_labels :: "string list" where
  "runtime_labels =
     [''< 60 min'', ''60-74'', ''75-89'', ''90-104'', ''105-119'', ''120-149'', ''150-179'', ''180+'']"

text \<open>Lines 172-175.\<close>

definition runtime_edges :: "rat \<Rightarrow> edge list" where
  "runtime_edges max_runtime =
     map Fin [0, 60, 75, 90, 105, 120, 150, 180]
       @ (if 180 < max_runtime then [Fin (max_runtime + 1)] else [])"

text \<open>Lines 169-196. \<open>value_counts(sort=False)\<close> of the categorical lists every label
  with the number of samples in its bin; a sample in no bin is counted nowhere.
  The table is empty when there is no sample.\<close>

definition runtime_bins_df :: "rat list \<Rightarrow> (string \<times> nat) list" where
  "runtime_bins_df runtime_series =
     (case series_max runtime_series of
        None \<Rightarrow> []
      | Some max_runtime \<Rightarrow>
          (let edges = runtime_edges max_runtime;
               labels = take (length edges - 1) runtime_labels;
               runtime_bins = map (cut_bin edges) runtime_series
           in map (\<lambda>i. (labels ! i, count_list runtime_bins (Some i))) [0..<length labels]))"

text \<open>\<open>Series.quantile\<close> (linear interpolation) and \<open>median\<close>; undefined on no data.\<close>

definition quantile :: "rat list \<Rightarrow> rat \<Rightarrow> rat option" where
  "quantile xs q =
     (if xs = [] then None
      else (let s = sort xs;
                pos = of_nat (length xs - 1) * q;
                lo = nat \<lfloor>pos\<rfloor>;
                hi = nat \<lceil>pos\<rceil>
            in Some (s ! lo + (s ! hi - s ! lo) * (pos - of_int \<lfloor>pos\<rfloor>))))"

definition median :: "rat list \<Rightarrow> rat option" where
  "median xs = quantile xs (1 / 2)"

text \<open>\<open>mean\<close> of a column skips missing values; it is missing when no value is left.\<close>

definition mean :: "rat option list \<Rightarrow> rat option" where
  "mean xs =
     (let known = List.map_filter (\<lambda>x. x) xs
      in if known = [] then None else Some (sum_list known / of_nat (length known)))"

text \<open>Line 199.\<close>

definition long_runtime_share :: "rat list \<Rightarrow> rat option" where
  "long_runtime_share runtime_series =
     (if length runtime_series \<noteq> 0
      then Some (of_nat (length (filter (\<lambda>x. 120 \<le> x) runtime_series))
                 / of_nat (length runtime_series))
      else None)"

text \<open>Lines 219-225. \<open>pd.concat\<close> of no frame at all raises \<open>ValueError\<close>. The sort is
  descending by \<open>numVotes\<close>, \<open>drop_duplicates\<close> keeps the first row of every identifier.
  Rows with equal keys stay in the order of the rows here; numpy's default sort may
  order them otherwise, and then keep another of two tied rows of one identifier. What
  is proved of the table below holds for every order of the ties
  (\<open>top_titles_any_tie_order\<close>).\<close>

definition top_tconst :: "top_row \<Rightarrow> string" where
  "top_tconst r = fst r"

definition top_numVotes :: "top_row \<Rightarrow> int option" where
  "top_numVotes r = snd (snd (snd (snd r)))"

definition known_votes :: "int option \<Rightarrow> int" where
  "known_votes v = (case v of None \<Rightarrow> 0 | Some n \<Rightarrow> n)"

fun drop_duplicates :: "string list \<Rightarrow> top_row list \<Rightarrow> top_row list" where
  "drop_duplicates seen [] = []"
| "drop_duplicates seen (r # rs) =
     (if top_tconst r \<in> set seen then drop_duplicates seen rs
      else r # drop_duplicates (top_tconst r # seen) rs)"

definition top_titles_df :: "top_row list list \<Rightarrow> error + top_row list" where
  "top_titles_df frames =
     (if frames = [] then Inl ValueError
      else Inr (take 20
                  (drop_duplicates []
                     (sort_key (\<lambda>r. - known_votes (top_numVotes r))
                        (filter (\<lambda>r. top_numVotes r \<noteq> None) (concat frames))))))"

text \<open>Lines 227-231.\<close>

definition scatter_df ::
  "(rat option \<times> int option) list list \<Rightarrow> (rat option \<times> int option) list" where
  "scatter_df frames = (if frames \<noteq> [] then concat frames else [])"

definition vote_bins :: "edge list" where
  "vote_bins = [Fin 50000, Fin 100000, Fin 200000, Fin 500000, Fin 1000000, Fin 2000000,
                Fin 5000000, PInf]"

definition vote_labels :: "string list" where
  "vote_labels = [''50k-100k'', ''100k-200k'', ''200k-500k'', ''500k-1M'', ''1M-2M'', ''2M-5M'', ''5M+'']"

text \<open>The \<open>vote_band\<close> column: the bin of the vote count, missing for a missing count.\<close>

definition vote_band :: "rat option \<times> int option \<Rightarrow> nat option" where
  "vote_band r = (case snd r of None \<Rightarrow> None | Some v \<Rightarrow> cut_bin vote_bins (of_int v))"

text \<open>Lines 233-271. A row: \<open>(vote_band, title_count, avg_rating, median_votes)\<close>.
  Grouping a categorical with \<open>observed=False\<close> yields one group per category, also
  for a category without rows: \<open>size\<close> is then 0, mean and median are missing.
  \<open>size\<close> counts rows, rated or not.\<close>

type_synonym popularity_row = "string \<times> nat \<times> rat option \<times> rat option"

definition popularity_df :: "(rat option \<times> int option) list \<Rightarrow> popularity_row list" where
  "popularity_df scatter =
     (if scatter = [] then []
      else (let banded = filter (\<lambda>r. vote_band r \<noteq> None) scatter
            in map (\<lambda>i. (let group = filter (\<lambda>r. vote_band r = Some i) banded
                          in (vote_labels ! i,
                              length group,
                              mean (map fst group),
                              median (map (\<lambda>r. of_int (known_votes (snd r))) group))))
                 [0..<length vote_labels]))"

text \<open>Lines 56-60. The weights are vote counts and never missing; a missing rating makes
  its product missing, which the sum skips.\<close>

definition weighted_average :: "rat option list \<Rightarrow> rat list \<Rightarrow> rat option" where
  "weighted_average ratings weights =
     (let total_weight = sum_list weights
      in if total_weight = 0 then None
         else Some (nansum (map (\<lambda>(r, w). map_option (\<lambda>x. x * w) r) (zip ratings weights))
                    / total_weight))"

record summaries =
  s_total_rated_movies :: int
  s_median_runtime :: "rat option"
  s_overall_weighted_rating :: "rat option"
  s_runtime_p10 :: "rat option"
  s_runtime_p25 :: "rat option"
  s_runtime_p75 :: "rat option"
  s_runtime_p90 :: "rat option"
  s_share_over_120_min :: "rat option"

record report =
  movies_per_year_out :: "(int \<times> nat) list"
  yearly_ratings_out :: "yearly_row list"
  genre_out :: "genre_row list"
  top_titles_out :: "top_row list"
  runtime_bins_out :: "(string \<times> nat) list"
  popularity_out :: "popularity_row list"
  summaries_out :: summaries

text \<open>Lines 150-289 in the order the script evaluates them: the first exception
  raised ends the run.\<close>

definition finalize :: "rating_row list \<Rightarrow> aggregators \<Rightarrow> error + report" where
  "finalize ratings_df s =
     (case yearly_ratings_df (year_weighted_sums s) of
        Inl e \<Rightarrow> Inl e
      | Inr yearly \<Rightarrow>
     (case genre_df (genre_stats s) of
        Inl e \<Rightarrow> Inl e
      | Inr genre \<Rightarrow>
     (case top_titles_df (top_titles_frames s) of
        Inl e \<Rightarrow> Inl e
      | Inr top_titles \<Rightarrow>
          Inr \<lparr>movies_per_year_out = movies_per_year_df (movies_per_year s),
               yearly_ratings_out = yearly,
               genre_out = genre,
               top_titles_out = top_titles,
               runtime_bins_out = runtime_bins_df (runtime_minutes s),
               popularity_out = popularity_df (scatter_df (scatter_frames s)),
               summaries_out =
                 \<lparr>s_total_rated_movies = total_rated_movies (movies_per_year s),
                  s_median_runtime = median (runtime_minutes s),
                  s_overall_weighted_rating =
                    weighted_average (map (\<lambda>(k, r, v). r) ratings_df)
                      (map (\<lambda>(k, r, v). of_int v) ratings_df),
                  s_runtime_p10 = quantile (runtime_minutes s) (1 / 10),
                  s_runtime_p25 = quantile (runtime_minutes s) (1 / 4),
                  s_runtime_p75 = quantile (runtime_minutes s) (3 / 4),
                  s_runtime_p90 = quantile (runtime_minutes s) (9 / 10),
                  s_share_over_120_min = long_runtime_share (runtime_minutes s)\<rparr>\<rparr>)))"

text \<open>\<open>analyse()\<close> without its file and plotting code.\<close>

definition analyse ::
  "(string \<Rightarrow> rat option) \<Rightarrow> rating_row list \<Rightarrow> string title_row list list \<Rightarrow> error + report" where
  "analyse num ratings chunks =
     (let ratings_df = set_index ratings
      in finalize ratings_df (stream num ratings_df chunks))"

text \<open>\<open>pd.to_numeric\<close> on decimal literals: an optional sign, digits with an optional
  fraction, an optional exponent. Any other text is treated as missing (so are the
  texts of infinities, which are outside the model).\<close>

definition is_digit :: "char \<Rightarrow> bool" where
  "is_digit c = (CHR ''0'' \<le> c \<and> c \<le> CHR ''9'')"

definition digits_nat :: "string \<Rightarrow> nat" where
  "digits_nat cs = foldl (\<lambda>a c. 10 * a + (of_char c - of_char CHR ''0'')) 0 cs"

text \<open>A leading sign: whether it is a minus, and the rest of the text.\<close>

fun split_sign :: "string \<Rightarrow> bool \<times> string" where
  "split_sign [] = (False, [])"
| "split_sign (c # cs) =
     (if c = CHR ''-'' then (True, cs)
      else if c = CHR ''+'' then (False, cs)
      else (False, c # cs))"

text \<open>The exponent part, after the mantissa: the power of ten to multiply with.\<close>

definition exponent_factor :: "string \<Rightarrow> rat option" where
  "exponent_factor s =
     (case s of
        [] \<Rightarrow> Some 1
      | c # t \<Rightarrow>
          (if c = CHR ''e'' \<or> c = CHR ''E''
           then (let (neg, ds) = split_sign t
                 in if ds \<noteq> [] \<and> list_all is_digit ds
                    then Some (if neg then 1 / 10 ^ digits_nat ds else 10 ^ digits_nat ds)
                    else None)
           else None))"

definition to_numeric :: "string \<Rightarrow> rat option" where
  "to_numeric s =
     (let (neg, s1) = split_sign s;
          ip = takeWhile is_digit s1;
          s2 = dropWhile is_digit s1;
          fp = (case s2 of [] \<Rightarrow> [] | c # t \<Rightarrow> if c = CHR ''.'' then takeWhile is_digit t else []);
          s3 = (case s2 of [] \<Rightarrow> [] | c # t \<Rightarrow> if c = CHR ''.'' then dropWhile is_digit t else s2);
          mantissa = of_nat (digits_nat (ip @ fp)) / 10 ^ length fp
      in if ip @ fp = [] then None
         else map_option (\<lambda>f. (if neg then - mantissa else mantissa) * f) (exponent_factor s3))"

section \<open>Reference computations\<close>

text \<open>The joined and coerced movie rows of the whole run, chunk after chunk.\<close>

definition all_movies ::
  "(string \<Rightarrow> rat option) \<Rightarrow> rating_row list \<Rightarrow> string title_row list list \<Rightarrow> rat joined_row list" where
  "all_movies num ratings_df chunks = concat (map (chunk_movies num ratings_df) chunks)"

text \<open>Sums computed directly over rows: of rating times votes, where a row without a
  rating adds nothing (the sum skips a missing product), and of the votes.\<close>

definition rows_of_year :: "int \<Rightarrow> rat joined_row list \<Rightarrow> rat joined_row list" where
  "rows_of_year y movies = filter (\<lambda>m. year_key m = Some y \<and> numVotes m \<noteq> None) movies"

definition sum_rating_votes :: "rat joined_row list \<Rightarrow> rat" where
  "sum_rating_votes rows =
     (\<Sum>m \<leftarrow> rows. case averageRating m of
                     None \<Rightarrow> 0
                   | Some r \<Rightarrow> r * of_int (known_votes (numVotes m)))"

definition sum_votes :: "rat joined_row list \<Rightarrow> int" where
  "sum_votes rows = (\<Sum>m \<leftarrow> rows. known_votes (numVotes m))"

text \<open>The weighted average as the specification words it, "the sum of rating times votes
  over the sum of votes, over a row subset", where a row that lacks the rating or the
  vote count takes no part in the aggregate; undefined when the votes add up to zero.\<close>

definition rated_rows :: "rat joined_row list \<Rightarrow> rat joined_row list" where
  "rated_rows rows = filter (\<lambda>m. averageRating m \<noteq> None \<and> numVotes m \<noteq> None) rows"

definition spec_weighted_average :: "rat joined_row list \<Rightarrow> rat option" where
  "spec_weighted_average rows =
     (if sum_votes (rated_rows rows) = 0 then None
      else Some (sum_rating_votes (rated_rows rows) / of_int (sum_votes (rated_rows rows))))"

text \<open>A rating that is not negative; a missing rating is not.\<close>

definition nonneg_rating :: "rat option \<Rightarrow> bool" where
  "nonneg_rating rt = (case rt of None \<Rightarrow> True | Some r \<Rightarrow> 0 \<le> r)"

text \<open>The rows that count for a genre: one per occurrence of the genre among the
  tokens of a movie.\<close>

definition rows_of_genre :: "string \<Rightarrow> rat joined_row list \<Rightarrow> rat joined_row list" where
  "rows_of_genre g movies = map fst (filter (\<lambda>(m, t). t = g) (explode_genres movies))"

section \<open>Example inputs\<close>

text \<open>The end-to-end example of the specification: two rated movies of the year 2000.\<close>

definition spec_ratings :: "rating_row list" where
  "spec_ratings = [(''t1'', Some 8, 100), (''t2'', Some 6, 50)]"

definition spec_title1 :: "string title_row" where
  "spec_title1 =
     \<lparr>tconst = ''t1'', titleType = Some ''movie'', primaryTitle = Some ''A'',
      startYear = Some ''2000'', runtimeMinutes = Some ''90'', genres = Some ''Drama''\<rparr>"

definition spec_title2 :: "string title_row" where
  "spec_title2 =
     \<lparr>tconst = ''t2'', titleType = Some ''movie'', primaryTitle = Some ''B'',
      startYear = Some ''2000'', runtimeMinutes = Some ''100'', genres = Some ''Drama,Comedy''\<rparr>"

text \<open>A second input: the same two movies, then a chunk with a popular movie of 1899
  that runs 180 minutes and has no genre, and a short film without a rating.\<close>

definition demo_ratings :: "rating_row list" where
  "demo_ratings = [(''t1'', Some 8, 100), (''t2'', Some 6, 50), (''t3'', Some 7, 60000)]"

definition demo_chunk1 :: "string title_row list" where
  "demo_chunk1 = [spec_title1, spec_title2]"

definition demo_chunk2 :: "string title_row list" where
  "demo_chunk2 =
     [\<lparr>tconst = ''t3'', titleType = Some ''movie'', primaryTitle = Some ''C'',
       startYear = Some ''1899'', runtimeMinutes = Some ''180'', genres = None\<rparr>,
      \<lparr>tconst = ''t4'', titleType = Some ''short'', primaryTitle = Some ''D'',
       startYear = Some ''2001'', runtimeMinutes = None, genres = Some ''Short''\<rparr>]"

text \<open>The joined and coerced rows of these inputs.\<close>

definition movie1 :: "rat joined_row" where
  "movie1 =
     \<lparr>tconst = ''t1'', titleType = Some ''movie'', primaryTitle = Some ''A'',
      startYear = Some 2000, runtimeMinutes = Some 90, genres = Some ''Drama'',
      averageRating = Some 8, numVotes = Some 100\<rparr>"

definition movie2 :: "rat joined_row" where
  "movie2 =
     \<lparr>tconst = ''t2'', titleType = Some ''movie'', primaryTitle = Some ''B'',
      startYear = Some 2000, runtimeMinutes = Some 100, genres = Some ''Drama,Comedy'',
      averageRating = Some 6, numVotes = Some 50\<rparr>"

definition movie3 :: "rat joined_row" where
  "movie3 =
     \<lparr>tconst = ''t3'', titleType = Some ''movie'', primaryTitle = Some ''C'',
      startYear = Some 1899, runtimeMinutes = Some 180, genres = None,
      averageRating = Some 7, numVotes = Some 60000\<rparr>"

definition state1 :: aggregators where
  "state1 =
     \<lparr>movies_per_year = [(2000, 2)],
      year_weighted_sums = [(2000, \<lparr>weighted_sum = 1100, votes = 150\<rparr>)],
      genre_stats =
        [(''Comedy'', \<lparr>weighted_sum = 300, votes = 50, count_n = 1\<rparr>),
         (''Drama'', \<lparr>weighted_sum = 1100, votes = 150, count_n = 2\<rparr>)],
      runtime_minutes = [90, 100],
      top_titles_frames =
        [[(''t1'', Some ''A'', Some 2000, Some 8, Some 100),
          (''t2'', Some ''B'', Some 2000, Some 6, Some 50)]],
      scatter_frames = []\<rparr>"

definition state2 :: aggregators where
  "state2 =
     \<lparr>movies_per_year = [(2000, 2), (1899, 1)],
      year_weighted_sums =
        [(2000, \<lparr>weighted_sum = 1100, votes = 150\<rparr>),
         (1899, \<lparr>weighted_sum = 420000, votes = 60000\<rparr>)],
      genre_stats =
        [(''Comedy'', \<lparr>weighted_sum = 300, votes = 50, count_n = 1\<rparr>),
         (''Drama'', \<lparr>weighted_sum = 1100, votes = 150, count_n = 2\<rparr>)],
      runtime_minutes = [90, 100, 180],
      top_titles_frames =
        [[(''t1'', Some ''A'', Some 2000, Some 8, Some 100),
          (''t2'', Some ''B'', Some 2000, Some 6, Some 50)],
         [(''t3'', Some ''C'', Some 1899, Some 7, Some 60000)]],
      scatter_frames = [[(Some 7, Some 60000)]]\<rparr>"

text \<open>A third input: the first movie of the example, rated but with no vote.\<close>

definition unvoted_ratings :: "rating_row list" where
  "unvoted_ratings = [(''t1'', Some 8, 0)]"

definition movie0 :: "rat joined_row" where
  "movie0 =
     \<lparr>tconst = ''t1'', titleType = Some ''movie'', primaryTitle = Some ''A'',
      startYear = Some 2000, runtimeMinutes = Some 90, genres = Some ''Drama'',
      averageRating = Some 8, numVotes = Some 0\<rparr>"

definition state0 :: aggregators where
  "state0 =
     \<lparr>movies_per_year = [(2000, 1)],
      year_weighted_sums = [(2000, \<lparr>weighted_sum = 0, votes = 0\<rparr>)],
      genre_stats = [(''Drama'', \<lparr>weighted_sum = 0, votes = 0, count_n = 1\<rparr>)],
      runtime_minutes = [90],
      top_titles_frames = [[(''t1'', Some ''A'', Some 2000, Some 8, Some 0)]],
      scatter_frames = []\<rparr>"

text \<open>A fourth input: the two movies of the example with ten votes each, the first one
  without a rating.\<close>

definition unrated_ratings :: "rating_row list" where
  "unrated_ratings = [(''t1'', None, 10), (''t2'', Some 8, 10)]"

definition unrated1 :: "rat joined_row" where
  "unrated1 =
     \<lparr>tconst = ''t1'', titleType = Some ''movie'', primaryTitle = Some ''A'',
      startYear = Some 2000, runtimeMinutes = Some 90, genres = Some ''Drama'',
      averageRating = None, numVotes = Some 10\<rparr>"

definition unrated2 :: "rat joined_row" where
  "unrated2 =
     \<lparr>tconst = ''t2'', titleType = Some ''movie'', primaryTitle = Some ''B'',
      startYear = Some 2000, runtimeMinutes = Some 100, genres = Some ''Drama,Comedy'',
      averageRating = Some 8, numVotes = Some 10\<rparr>"

definition spec_report :: report where
  "spec_report =
     \<lparr>movies_per_year_out = [(2000, 2)],
      yearly_ratings_out = [(2000, Some (22 / 3), 150)],
      genre_out = [(''Drama'', 2, 150, Some (22 / 3)), (''Comedy'', 1, 50, Some 6)],
      top_titles_out =
        [(''t1'', Some ''A'', Some 2000, Some 8, Some 100),
         (''t2'', Some ''B'', Some 2000, Some 6, Some 50)],
      runtime_bins_out =
        [(''< 60 min'', 0), (''60-74'', 0), (''75-89'', 0), (''90-104'', 2),
         (''105-119'', 0), (''120-149'', 0), (''150-179'', 0)],
      popularity_out = [],
      summaries_out =
        \<lparr>s_total_rated_movies = 2, s_median_runtime = Some 95,
         s_overall_weighted_rating = Some (22 / 3),
         s_runtime_p10 = Some 91, s_runtime_p25 = Some (185 / 2),
         s_runtime_p75 = Some (195 / 2), s_runtime_p90 = Some 99,
         s_share_over_120_min = Some 0\<rparr>\<rparr>"

definition demo_report :: report where
  "demo_report =
     \<lparr>movies_per_year_out = [(2000, 2)],
      yearly_ratings_out = [(1899, Some 7, 60000), (2000, Some (22 / 3), 150)],
      genre_out = [(''Drama'', 2, 150, Some (22 / 3)), (''Comedy'', 1, 50, Some 6)],
      top_titles_out =
        [(''t3'', Some ''C'', Some 1899, Some 7, Some 60000),
         (''t1'', Some ''A'', Some 2000, Some 8, Some 100),
         (''t2'', Some ''B'', Some 2000, Some 6, Some 50)],
      runtime_bins_out =
        [(''< 60 min'', 0), (''60-74'', 0), (''75-89'', 0), (''90-104'', 2),
         (''105-119'', 0), (''120-149'', 0), (''150-179'', 0)],
      popularity_out =
        [(''50k-100k'', 1, Some 7, Some 60000), (''100k-200k'', 0, None, None),
         (''200k-500k'', 0, None, None), (''500k-1M'', 0, None, None),
         (''1M-2M'', 0, None, None), (''2M-5M'', 0, None, None), (''5M+'', 0, None, None)],
      summaries_out =
        \<lparr>s_total_rated_movies = 2, s_median_runtime = Some 100,
         s_overall_weighted_rating = Some (8422 / 1203),
         s_runtime_p10 = Some 92, s_runtime_p25 = Some 95,
         s_runtime_p75 = Some 140, s_runtime_p90 = Some 164,
         s_share_over_120_min = Some (1 / 3)\<rparr>\<rparr>"

section \<open>The examples, evaluated\<close>

lemma to_numeric_examples:
  "to_numeric ''2000'' = Some 2000" "to_numeric ''90'' = Some 90"
  "to_numeric ''100'' = Some 100" "to_numeric ''1899'' = Some 1899"
  "to_numeric ''180'' = Some 180" "to_numeric ''2001'' = Some 2001"
  by (simp_all add: to_numeric_def is_digit_def digits_nat_def exponent_factor_def)

lemma floor_rat_numeral:
  "\<lfloor>(numeral a :: rat) / numeral b\<rfloor> = numeral a div numeral b"
  "\<lfloor>(1 :: rat) / numeral b\<rfloor> = 1 div numeral b"
  using floor_divide_of_int_eq[of "numeral a" "numeral b", where ?'a = rat]
    floor_divide_of_int_eq[of 1 "numeral b", where ?'a = rat]
  by simp_all

lemma ceiling_rat_numeral:
  "\<lceil>(numeral a :: rat) / numeral b\<rceil> = - (- numeral a div numeral b)"
  "\<lceil>(1 :: rat) / numeral b\<rceil> = - (- 1 div numeral b)"
  unfolding ceiling_def
  using floor_divide_of_int_eq[of "- numeral a" "numeral b", where ?'a = rat]
    floor_divide_of_int_eq[of "- 1" "numeral b", where ?'a = rat]
  by simp_all

lemmas acc_eval =
  List.map_filter_simps year_key_def astype_int_def py_int_def nansum_def rating_times_votes_def
  votes_float_def year_get_def year_default_def genre_get_def genre_default_def
  add_year_group_def add_genre_group_def update_years_def update_genres_def
  explode_genres_def sentinel_def counter_update_def counter_get_def value_counts_def
  top_cols_def popular_subset_def

lemmas fin_eval =
  yearly_ratings_df_def yearly_rating_records_def genre_df_def genre_records_def
  top_titles_df_def top_tconst_def top_numVotes_def known_votes_def
  movies_per_year_df_def total_rated_movies_def

lemmas stat_eval =
  runtime_bins_df_def runtime_edges_def runtime_labels_def cut_bin_def upt_rec
  scatter_df_def popularity_df_def vote_band_def vote_bins_def vote_labels_def
  mean_def median_def quantile_def long_runtime_share_def weighted_average_def Let_def
  floor_rat_numeral ceiling_rat_numeral

lemma chunk_movies_spec:
  "chunk_movies to_numeric spec_ratings [spec_title1, spec_title2] = [movie1, movie2]"
  by (simp add: chunk_movies_def spec_ratings_def spec_title1_def spec_title2_def
      join_inner_def lookup_def coerce_def to_numeric_examples movie1_def movie2_def)

lemma chunk_movies_demo1:
  "chunk_movies to_numeric demo_ratings demo_chunk1 = [movie1, movie2]"
  by (simp add: chunk_movies_def demo_ratings_def demo_chunk1_def spec_title1_def
      spec_title2_def join_inner_def lookup_def coerce_def to_numeric_examples
      movie1_def movie2_def)

lemma chunk_movies_demo2:
  "chunk_movies to_numeric demo_ratings demo_chunk2 = [movie3]"
  by (simp add: chunk_movies_def demo_ratings_def demo_chunk2_def
      join_inner_def lookup_def coerce_def to_numeric_examples movie3_def)

lemma accumulate_state1: "accumulate init_aggregators [movie1, movie2] = state1"
  by (simp add: accumulate_def init_aggregators_def state1_def movie1_def movie2_def acc_eval)

lemma accumulate_state2: "accumulate state1 [movie3] = state2"
  by (simp add: accumulate_def state1_def state2_def movie3_def acc_eval)

lemma stream_spec: "stream to_numeric spec_ratings [[spec_title1, spec_title2]] = state1"
  by (simp add: stream_def process_chunk_def chunk_movies_spec accumulate_state1)

lemma stream_demo: "stream to_numeric demo_ratings [demo_chunk1, demo_chunk2] = state2"
  by (simp add: stream_def process_chunk_def chunk_movies_demo1 chunk_movies_demo2
      accumulate_state1 accumulate_state2)

lemma yearly_state1:
  "yearly_ratings_df (year_weighted_sums state1) = Inr [(2000, Some (22 / 3), 150)]"
  by (simp add: state1_def fin_eval del: not_None_eq)

lemma genre_state1:
  "genre_df (genre_stats state1)
     = Inr [(''Drama'', 2, 150, Some (22 / 3)), (''Comedy'', 1, 50, Some 6)]"
  by (simp add: state1_def fin_eval del: not_None_eq)

lemma top_state1:
  "top_titles_df (top_titles_frames state1) =
     Inr [(''t1'', Some ''A'', Some 2000, Some 8, Some 100),
          (''t2'', Some ''B'', Some 2000, Some 6, Some 50)]"
  by (simp add: state1_def fin_eval)

lemma runtime_bins_state1:
  "runtime_bins_df (runtime_minutes state1) =
     [(''< 60 min'', 0), (''60-74'', 0), (''75-89'', 0), (''90-104'', 2), (''105-119'', 0),
      (''120-149'', 0), (''150-179'', 0)]"
  by (simp add: state1_def stat_eval)

lemma summaries_state1:
  "median (runtime_minutes state1) = Some 95"
  "quantile (runtime_minutes state1) (1 / 10) = Some 91"
  "quantile (runtime_minutes state1) (1 / 4) = Some (185 / 2)"
  "quantile (runtime_minutes state1) (3 / 4) = Some (195 / 2)"
  "quantile (runtime_minutes state1) (9 / 10) = Some 99"
  "long_runtime_share (runtime_minutes state1) = Some 0"
  "total_rated_movies (movies_per_year state1) = 2"
  "movies_per_year_df (movies_per_year state1) = [(2000, 2)]"
  "popularity_df (scatter_df (scatter_frames state1)) = []"
  by (simp_all add: state1_def stat_eval fin_eval)

lemma overall_spec:
  "weighted_average (map (\<lambda>(k, r, v). r) spec_ratings)
     (map (\<lambda>(k, r, v). of_int v) spec_ratings) = Some (22 / 3)"
  by (simp add: spec_ratings_def weighted_average_def nansum_def)

lemma finalize_spec: "finalize spec_ratings state1 = Inr spec_report"
  by (simp add: finalize_def yearly_state1 genre_state1 top_state1 runtime_bins_state1
      summaries_state1 overall_spec spec_report_def)

lemma yearly_state2:
  "yearly_ratings_df (year_weighted_sums state2)
     = Inr [(1899, Some 7, 60000), (2000, Some (22 / 3), 150)]"
  by (simp add: state2_def fin_eval del: not_None_eq)

lemma genre_state2:
  "genre_df (genre_stats state2)
     = Inr [(''Drama'', 2, 150, Some (22 / 3)), (''Comedy'', 1, 50, Some 6)]"
  by (simp add: state2_def fin_eval del: not_None_eq)

lemma top_state2:
  "top_titles_df (top_titles_frames state2) =
     Inr [(''t3'', Some ''C'', Some 1899, Some 7, Some 60000),
          (''t1'', Some ''A'', Some 2000, Some 8, Some 100),
          (''t2'', Some ''B'', Some 2000, Some 6, Some 50)]"
  by (simp add: state2_def fin_eval)

lemma runtime_bins_state2:
  "runtime_bins_df (runtime_minutes state2) =
     [(''< 60 min'', 0), (''60-74'', 0), (''75-89'', 0), (''90-104'', 2), (''105-119'', 0),
      (''120-149'', 0), (''150-179'', 0)]"
  by (simp add: state2_def stat_eval)

lemma popularity_state2:
  "popularity_df (scatter_df (scatter_frames state2)) =
     [(''50k-100k'', 1, Some 7, Some 60000), (''100k-200k'', 0, None, None),
      (''200k-500k'', 0, None, None), (''500k-1M'', 0, None, None), (''1M-2M'', 0, None, None),
      (''2M-5M'', 0, None, None), (''5M+'', 0, None, None)]"
  by (simp add: state2_def stat_eval known_votes_def)

lemma summaries_state2:
  "median (runtime_minutes state2) = Some 100"
  "quantile (runtime_minutes state2) (1 / 10) = Some 92"
  "quantile (runtime_minutes state2) (1 / 4) = Some 95"
  "quantile (runtime_minutes state2) (3 / 4) = Some 140"
  "quantile (runtime_minutes state2) (9 / 10) = Some 164"
  "long_runtime_share (runtime_minutes state2) = Some (1 / 3)"
  "total_rated_movies (movies_per_year state2) = 2"
  "movies_per_year_df (movies_per_year state2) = [(2000, 2)]"
  by (simp_all add: state2_def stat_eval fin_eval)

lemma overall_demo:
  "weighted_average (map (\<lambda>(k, r, v). r) demo_ratings)
     (map (\<lambda>(k, r, v). of_int v) demo_ratings) = Some (8422 / 1203)"
  by (simp add: demo_ratings_def weighted_average_def nansum_def)

lemma finalize_demo: "finalize demo_ratings state2 = Inr demo_report"
  by (simp add: finalize_def yearly_state2 genre_state2 top_state2 runtime_bins_state2
      popularity_state2 summaries_state2 overall_demo demo_report_def)

lemma analyse_demo: "analyse to_numeric demo_ratings [demo_chunk1, demo_chunk2] = Inr demo_report"
  by (simp add: analyse_def set_index_def stream_demo finalize_demo)

lemma chunk_movies_unvoted:
  "chunk_movies to_numeric unvoted_ratings [spec_title1] = [movie0]"
  by (simp add: chunk_movies_def unvoted_ratings_def spec_title1_def
      join_inner_def lookup_def coerce_def to_numeric_examples movie0_def)

lemma stream_unvoted: "stream to_numeric unvoted_ratings [[spec_title1]] = state0"
  by (simp add: stream_def process_chunk_def chunk_movies_unvoted accumulate_def
      init_aggregators_def state0_def movie0_def acc_eval)

lemma chunk_movies_unrated:
  "chunk_movies to_numeric unrated_ratings [spec_title1, spec_title2] = [unrated1, unrated2]"
  by (simp add: chunk_movies_def unrated_ratings_def spec_title1_def spec_title2_def
      join_inner_def lookup_def coerce_def to_numeric_examples unrated1_def unrated2_def)

lemma chunk_movies_unrated1:
  "chunk_movies to_numeric [(''t1'', None, 10)] [spec_title1] = [unrated1]"
  by (simp add: chunk_movies_def spec_title1_def
      join_inner_def lookup_def coerce_def to_numeric_examples unrated1_def)

section \<open>Auxiliary facts\<close>

lemma finalize_InrD:
  assumes "finalize ratings_df s = Inr rep"
  shows "movies_per_year_out rep = movies_per_year_df (movies_per_year s)"
    and "yearly_ratings_df (year_weighted_sums s) = Inr (yearly_ratings_out rep)"
    and "genre_df (genre_stats s) = Inr (genre_out rep)"
    and "top_titles_df (top_titles_frames s) = Inr (top_titles_out rep)"
    and "runtime_bins_out rep = runtime_bins_df (runtime_minutes s)"
    and "popularity_out rep = popularity_df (scatter_df (scatter_frames s))"
    and "s_total_rated_movies (summaries_out rep) = total_rated_movies (movies_per_year s)"
  using assms by (auto simp: finalize_def split: sum.splits)

lemma sum_list_map_mset_cong:
  fixes f :: "'a \<Rightarrow> 'b::comm_monoid_add"
  assumes "mset xs = mset ys"
  shows "sum_list (map f xs) = sum_list (map f ys)"
proof -
  have "sum_mset (mset (map f xs)) = sum_mset (mset (map f ys))"
    using assms by simp
  then show ?thesis
    by (simp only: sum_mset_sum_list)
qed

lemma int_sum_list_snd: "int (sum_list (map snd xs)) = (\<Sum>(y, n) \<leftarrow> xs. int n)"
  by (induction xs) auto

lemma mset_movies_per_year_df:
  "mset (movies_per_year_df c) = filter_mset (\<lambda>(year, n). 1900 \<le> year) (mset c)"
  by (simp add: movies_per_year_df_def)

lemma length_lookup: "length (lookup ratings_df k) = count_list (map fst ratings_df) k"
  by (induction ratings_df) (auto simp: lookup_def)

lemma length_join_inner:
  "length (join_inner movies ratings_df)
     = (\<Sum>m \<leftarrow> movies. count_list (map fst ratings_df) (tconst m))"
  by (induction movies) (simp_all add: join_inner_def length_lookup)

lemma count_list_distinct_le: "distinct xs \<Longrightarrow> count_list xs k \<le> 1"
  by (induction xs) (auto simp: count_list_0_iff)

lemma set_drop_duplicates: "set (drop_duplicates seen rs) \<subseteq> set rs"
  by (induction seen rs rule: drop_duplicates.induct) auto

lemma drop_duplicates_not_seen:
  "r \<in> set (drop_duplicates seen rs) \<Longrightarrow> top_tconst r \<notin> set seen"
  by (induction seen rs rule: drop_duplicates.induct) (auto split: if_splits)

lemma distinct_drop_duplicates: "distinct (map top_tconst (drop_duplicates seen rs))"
  by (induction seen rs rule: drop_duplicates.induct)
     (auto dest: drop_duplicates_not_seen)

lemma sorted_wrt_drop_duplicates:
  "sorted_wrt P rs \<Longrightarrow> sorted_wrt P (drop_duplicates seen rs)"
  using set_drop_duplicates by (induction seen rs rule: drop_duplicates.induct) fastforce+

lemma top_titles_any_tie_order:
  assumes "mset rows = mset (filter (\<lambda>r. top_numVotes r \<noteq> None) (concat frames))"
    and "sorted_wrt (\<lambda>a b. known_votes (top_numVotes a) \<ge> known_votes (top_numVotes b)) rows"
  shows "distinct (map top_tconst (take 20 (drop_duplicates [] rows)))
       \<and> sorted_wrt (\<lambda>a b. known_votes (top_numVotes a) \<ge> known_votes (top_numVotes b))
           (take 20 (drop_duplicates [] rows))
       \<and> length (take 20 (drop_duplicates [] rows)) \<le> 20
       \<and> (\<forall>r \<in> set (take 20 (drop_duplicates [] rows)). top_numVotes r \<noteq> None)"
proof -
  let ?dedup = "drop_duplicates [] rows"
  have "sorted_wrt (\<lambda>a b. known_votes (top_numVotes a) \<ge> known_votes (top_numVotes b)) ?dedup"
    using assms(2) by (rule sorted_wrt_drop_duplicates)
  then have srt: "sorted_wrt (\<lambda>a b. known_votes (top_numVotes a) \<ge> known_votes (top_numVotes b))
           (take 20 ?dedup)"
    by (rule sorted_wrt_take)
  have "distinct (map top_tconst ?dedup)"
    by (rule distinct_drop_duplicates)
  then have dis: "distinct (map top_tconst (take 20 ?dedup))"
    by (simp add: take_map[symmetric] distinct_take del: take_map)
  have "set rows = set (filter (\<lambda>r. top_numVotes r \<noteq> None) (concat frames))"
    using assms(1) by (rule mset_eq_setD)
  then have "\<forall>r \<in> set rows. top_numVotes r \<noteq> None"
    by auto
  moreover have "set (take 20 ?dedup) \<subseteq> set rows"
    using set_take_subset[of 20 ?dedup] set_drop_duplicates[of "[]" rows] by blast
  ultimately have "\<forall>r \<in> set (take 20 ?dedup). top_numVotes r \<noteq> None"
    by blast
  then show ?thesis
    using srt dis by simp
qed

lemma top_titles_df_Inr:
  assumes "top_titles_df frames = Inr tbl"
  shows "tbl = take 20 (drop_duplicates []
                     (sort_key (\<lambda>r. - known_votes (top_numVotes r))
                        (filter (\<lambda>r. top_numVotes r \<noteq> None) (concat frames))))"
  using assms by (auto simp: top_titles_df_def split: if_splits)

text \<open>When the finalisation raises, and what it raises.\<close>

lemma finalize_cases:
  "finalize ratings_df s =
     (if year_weighted_sums s = [] \<or> genre_stats s = [] then Inl KeyError
      else if top_titles_frames s = [] then Inl ValueError
      else Inr (projr (finalize ratings_df s)))"
  by (simp add: finalize_def yearly_ratings_df_def yearly_rating_records_def genre_df_def
      genre_records_def top_titles_df_def)

text \<open>Empty runtime and popularity collections alone do not stop the finalisation.\<close>

lemma finalize_empty_collections:
  assumes "year_weighted_sums s \<noteq> []" and "genre_stats s \<noteq> []"
    and "top_titles_frames s \<noteq> []"
    and "runtime_minutes s = []" and "scatter_frames s = []"
  shows "\<exists>rep. finalize ratings_df s = Inr rep
           \<and> runtime_bins_out rep = [] \<and> popularity_out rep = []
           \<and> s_median_runtime (summaries_out rep) = None
           \<and> s_runtime_p10 (summaries_out rep) = None
           \<and> s_runtime_p25 (summaries_out rep) = None
           \<and> s_runtime_p75 (summaries_out rep) = None
           \<and> s_runtime_p90 (summaries_out rep) = None
           \<and> s_share_over_120_min (summaries_out rep) = None"
  using assms
  by (simp add: finalize_def yearly_ratings_df_def yearly_rating_records_def genre_df_def
      genre_records_def top_titles_df_def runtime_bins_df_def scatter_df_def popularity_df_def
      median_def quantile_def long_runtime_share_def Let_def)

text \<open>The popularity collection and the bands.\<close>

lemma popular_subset_append:
  "popular_subset (a @ b) = popular_subset a @ popular_subset b"
  by (simp add: popular_subset_def)

lemma scatter_accumulate:
  "concat (scatter_frames (accumulate s movies)) = concat (scatter_frames s) @ popular_subset movies"
  by (simp add: accumulate_def)

lemma scatter_process_chunk:
  "concat (scatter_frames (process_chunk num r s c))
     = concat (scatter_frames s) @ popular_subset (chunk_movies num r c)"
  by (simp add: process_chunk_def scatter_accumulate)

lemma scatter_foldl:
  "concat (scatter_frames (foldl (process_chunk num r) s chunks))
     = concat (scatter_frames s) @ popular_subset (all_movies num r chunks)"
proof (induction chunks arbitrary: s)
  case Nil
  then show ?case by (simp add: all_movies_def popular_subset_def)
next
  case (Cons c cs)
  have "all_movies num r (c # cs) = chunk_movies num r c @ all_movies num r cs"
    by (simp add: all_movies_def)
  then show ?case
    by (simp add: Cons.IH scatter_process_chunk popular_subset_append)
qed

lemma scatter_df_concat: "scatter_df frames = concat frames"
  by (simp add: scatter_df_def)

lemma scatter_stream:
  "scatter_df (scatter_frames (stream num r chunks)) = popular_subset (all_movies num r chunks)"
  by (simp add: scatter_df_concat stream_def scatter_foldl init_aggregators_def)

lemma popular_subset_votes:
  "r \<in> set (popular_subset movies) \<Longrightarrow> \<exists>v. snd r = Some v \<and> 50000 \<le> v"
  by (auto simp: popular_subset_def split: option.splits)

lemma vote_band_interval:
  "vote_band (x, Some v) = Some i \<longleftrightarrow>
     i < 7 \<and> edge_le (vote_bins ! i) (of_int v) \<and> \<not> edge_le (vote_bins ! Suc i) (of_int v)"
  apply (simp add: vote_band_def cut_bin_def vote_bins_def)
  apply (cases "i < 7")
  apply (auto simp: less_Suc_eq numeral_eq_Suc nth_Cons' split: if_splits)
  done


lemma vote_band_exists:
  assumes "50000 \<le> v"
  shows "\<exists>i<7. vote_band (x, Some v) = Some i"
  using assms by (auto simp: vote_band_def cut_bin_def vote_bins_def)

lemma sum_band_counts:
  assumes "\<forall>r \<in> set xs. \<exists>i<n. f r = Some i"
  shows "(\<Sum>i \<leftarrow> [0..<n]. length (filter (\<lambda>r. f r = Some i) xs)) = length xs"
  using assms
proof (induction xs)
  case Nil
  then show ?case by simp
next
  case (Cons x xs)
  then obtain j where j: "j < n" "f x = Some j"
    by auto
  have "(\<Sum>i \<leftarrow> [0..<n]. length (filter (\<lambda>r. f r = Some i) (x # xs)))
        = (\<Sum>i \<leftarrow> [0..<n]. (if i = j then 1 else 0) + length (filter (\<lambda>r. f r = Some i) xs))"
    using j by (intro arg_cong[where f = sum_list] map_cong) auto
  also have "\<dots> = (\<Sum>i \<leftarrow> [0..<n]. if i = j then 1 else 0)
                   + (\<Sum>i \<leftarrow> [0..<n]. length (filter (\<lambda>r. f r = Some i) xs))"
    by (simp add: sum_list_addf)
  also have "(\<Sum>i \<leftarrow> [0..<n]. if i = j then 1 else 0) = (1::nat)"
    using j(1) by (simp add: interv_sum_list_conv_sum_set_nat)
  finally show ?case
    using Cons by simp
qed

lemma analyse_InrD:
  assumes "analyse num ratings chunks = Inr rep"
  shows "finalize (set_index ratings) (stream num (set_index ratings) chunks) = Inr rep"
  using assms by (simp add: analyse_def Let_def)

lemma popularity_df_counts:
  assumes "scatter \<noteq> []"
  shows "map fst (popularity_df scatter) = vote_labels"
    and "map (\<lambda>row. fst (snd row)) (popularity_df scatter)
           = map (\<lambda>i. length (filter (\<lambda>r. vote_band r = Some i) scatter)) [0..<7]"
proof -
  have f: "filter (\<lambda>r. vote_band r = Some i) (filter (\<lambda>r. vote_band r \<noteq> None) scatter)
        = filter (\<lambda>r. vote_band r = Some i) scatter" for i
    by (induction scatter) auto
  have l: "length vote_labels = 7"
    by (simp add: vote_labels_def)
  have n: "map ((!) vote_labels) [0..<length vote_labels] = vote_labels"
    by (rule map_nth)
  show "map fst (popularity_df scatter) = vote_labels"
    using assms n by (simp add: popularity_df_def comp_def Let_def)
  show "map (\<lambda>row. fst (snd row)) (popularity_df scatter)
           = map (\<lambda>i. length (filter (\<lambda>r. vote_band r = Some i) scatter)) [0..<7]"
    using assms f l by (simp add: popularity_df_def comp_def Let_def)
qed

lemma popularity_df_empty_band:
  assumes "row \<in> set (popularity_df scatter)" and "fst (snd row) = 0"
  shows "fst (snd (snd row)) = None \<and> snd (snd (snd row)) = None"
proof -
  let ?banded = "filter (\<lambda>r. vote_band r \<noteq> None) scatter"
  let ?group = "\<lambda>i. filter (\<lambda>r. vote_band r = Some i) ?banded"
  obtain i where row: "row = (vote_labels ! i, length (?group i), mean (map fst (?group i)),
                            median (map (\<lambda>r. of_int (known_votes (snd r))) (?group i)))"
    using assms(1) by (auto simp: popularity_df_def Let_def split: if_splits)
  then have "?group i = []"
    using assms(2) by simp
  then show ?thesis
    unfolding row by (simp add: mean_def median_def quantile_def List.map_filter_simps)
qed

text \<open>The runtime bins: when every sample is counted.\<close>

lemma series_max_ge:
  assumes "series_max xs = Some mx" and "x \<in> set xs"
  shows "x \<le> mx"
proof (cases xs)
  case Nil
  then show ?thesis using assms by simp
next
  case (Cons a as)
  have "fold max as a = Max (set (a # as))"
    by (rule Max.set_eq_fold[symmetric])
  then have "mx = Max (set xs)"
    using assms(1) Cons by simp
  then show ?thesis
    using assms(2) by simp
qed

lemma cut_runtime_edges:
  assumes "0 \<le> x" and "x \<le> mx" and "mx \<noteq> 180"
  shows "\<exists>i < length (runtime_edges mx) - 1. cut_bin (runtime_edges mx) x = Some i"
  using assms by (auto simp: cut_bin_def runtime_edges_def)

lemma count_list_map: "count_list (map f xs) y = length (filter (\<lambda>x. f x = y) xs)"
  by (induction xs) auto

lemma runtime_bins_total:
  assumes "\<forall>x \<in> set runtime_series. 0 \<le> x" and "series_max runtime_series \<noteq> Some 180"
  shows "sum_list (map snd (runtime_bins_df runtime_series)) = length runtime_series"
proof (cases "series_max runtime_series")
  case None
  then have "runtime_series = []"
    by (cases runtime_series) simp_all
  then show ?thesis
    by (simp add: runtime_bins_df_def)
next
  case (Some mx)
  let ?edges = "runtime_edges mx"
  let ?n = "length ?edges - 1"
  have mx: "mx \<noteq> 180"
    using assms(2) Some by simp
  have n: "length (take ?n runtime_labels) = ?n"
    by (simp add: runtime_labels_def runtime_edges_def)
  have total: "\<forall>x \<in> set runtime_series. \<exists>i < ?n. cut_bin ?edges x = Some i"
    using assms(1) series_max_ge[OF Some] cut_runtime_edges[OF _ _ mx] by blast
  have "map snd (runtime_bins_df runtime_series)
          = map (\<lambda>i. length (filter (\<lambda>x. cut_bin ?edges x = Some i) runtime_series)) [0..<?n]"
    using Some n by (simp add: runtime_bins_df_def Let_def comp_def count_list_map)
  then show ?thesis
    using sum_band_counts[OF total] by simp
qed

text \<open>The per-year accumulator after a group, a chunk, the whole stream.\<close>

lemma py_int_of_int: "py_int (of_int n) = n"
  by (simp add: py_int_def)

lemma nansum_rating_times_votes: "nansum (map rating_times_votes rows) = sum_rating_votes rows"
  by (induction rows)
     (auto simp: nansum_def sum_rating_votes_def rating_times_votes_def votes_float_def
           known_votes_def split: option.splits)

lemma nansum_votes_float: "nansum (map votes_float rows) = of_int (sum_votes rows)"
  by (induction rows)
     (auto simp: nansum_def sum_votes_def votes_float_def known_votes_def split: option.splits)

lemma year_get_add_year_group:
  "year_get (add_year_group vy d year) y =
     (if y = year
      then \<lparr>weighted_sum = weighted_sum (year_get d year)
                + sum_rating_votes (filter (\<lambda>m. year_key m = Some year) vy),
            votes = votes (year_get d year)
                + sum_votes (filter (\<lambda>m. year_key m = Some year) vy)\<rparr>
      else year_get d y)"
  by (simp add: add_year_group_def year_get_def update_conv' Let_def
      nansum_rating_times_votes nansum_votes_float py_int_of_int)

lemma year_get_foldl_groups:
  assumes "distinct ys"
  shows "year_get (foldl (add_year_group vy) d ys) y =
     (if y \<in> set ys
      then \<lparr>weighted_sum = weighted_sum (year_get d y)
                + sum_rating_votes (filter (\<lambda>m. year_key m = Some y) vy),
            votes = votes (year_get d y)
                + sum_votes (filter (\<lambda>m. year_key m = Some y) vy)\<rparr>
      else year_get d y)"
  using assms
proof (induction ys arbitrary: d)
  case Nil
  then show ?case by simp
next
  case (Cons a ys)
  then show ?case
    by (simp add: year_get_add_year_group)
qed

lemma valid_rows_of_year:
  "filter (\<lambda>m. year_key m = Some y)
     (filter (\<lambda>m. startYear m \<noteq> None \<and> numVotes m \<noteq> None) movies) = rows_of_year y movies"
  by (induction movies) (auto simp: rows_of_year_def year_key_def)

lemma set_map_filter: "set (List.map_filter f xs) = {y. \<exists>x \<in> set xs. f x = Some y}"
  by (induction xs) (auto simp: List.map_filter_simps split: option.splits)

lemma year_get_update_years:
  "year_get (update_years movies d) y =
     \<lparr>weighted_sum = weighted_sum (year_get d y) + sum_rating_votes (rows_of_year y movies),
      votes = votes (year_get d y) + sum_votes (rows_of_year y movies)\<rparr>"
proof -
  let ?vy = "filter (\<lambda>m. startYear m \<noteq> None \<and> numVotes m \<noteq> None) movies"
  let ?ys = "sort (remdups (List.map_filter year_key ?vy))"
  have d: "distinct ?ys"
    by simp
  have upd: "update_years movies d = foldl (add_year_group ?vy) d ?ys"
    by (simp add: update_years_def Let_def)
  show ?thesis
  proof (cases "y \<in> set ?ys")
    case True
    then show ?thesis
      unfolding upd year_get_foldl_groups[OF d] valid_rows_of_year by simp
  next
    case False
    then have "rows_of_year y movies = []"
      by (auto simp: set_map_filter valid_rows_of_year[symmetric] filter_empty_conv)
    with False show ?thesis
      unfolding upd year_get_foldl_groups[OF d] valid_rows_of_year
      by (simp add: sum_rating_votes_def sum_votes_def)
  qed
qed

lemma rows_of_year_append: "rows_of_year y (a @ b) = rows_of_year y a @ rows_of_year y b"
  by (simp add: rows_of_year_def)

lemma sum_rating_votes_append: "sum_rating_votes (a @ b) = sum_rating_votes a + sum_rating_votes b"
  by (simp add: sum_rating_votes_def)

lemma sum_votes_append: "sum_votes (a @ b) = sum_votes a + sum_votes b"
  by (simp add: sum_votes_def)

lemma year_get_process_chunk:
  "year_get (year_weighted_sums (process_chunk num r s c)) y =
     \<lparr>weighted_sum = weighted_sum (year_get (year_weighted_sums s) y)
         + sum_rating_votes (rows_of_year y (chunk_movies num r c)),
      votes = votes (year_get (year_weighted_sums s) y)
         + sum_votes (rows_of_year y (chunk_movies num r c))\<rparr>"
  by (simp add: process_chunk_def accumulate_def year_get_update_years)

lemma all_movies_Cons:
  "all_movies num r (c # cs) = chunk_movies num r c @ all_movies num r cs"
  by (simp add: all_movies_def)

lemma year_get_foldl_chunks:
  "year_get (year_weighted_sums (foldl (process_chunk num r) s chunks)) y =
     \<lparr>weighted_sum = weighted_sum (year_get (year_weighted_sums s) y)
         + sum_rating_votes (rows_of_year y (all_movies num r chunks)),
      votes = votes (year_get (year_weighted_sums s) y)
         + sum_votes (rows_of_year y (all_movies num r chunks))\<rparr>"
proof (induction chunks arbitrary: s)
  case Nil
  then show ?case
    by (simp add: all_movies_def rows_of_year_def sum_rating_votes_def sum_votes_def)
next
  case (Cons c cs)
  show ?case
    by (simp add: Cons.IH year_get_process_chunk all_movies_Cons rows_of_year_append
        sum_rating_votes_append sum_votes_append)
qed

lemma year_get_stream:
  "year_get (year_weighted_sums (stream num r chunks)) y =
     \<lparr>weighted_sum = sum_rating_votes (rows_of_year y (all_movies num r chunks)),
      votes = sum_votes (rows_of_year y (all_movies num r chunks))\<rparr>"
proof -
  have "year_get (year_weighted_sums init_aggregators) y = year_default"
    by (simp add: init_aggregators_def year_get_def)
  then show ?thesis
    unfolding stream_def year_get_foldl_chunks by (simp add: year_default_def)
qed


lemma keys_foldl_groups:
  "fst ` set (foldl (add_year_group vy) d ys) = fst ` set d \<union> set ys"
  by (induction ys arbitrary: d) (auto simp: add_year_group_def Let_def dom_update)

lemma distinct_foldl_groups:
  "distinct (map fst d) \<Longrightarrow> distinct (map fst (foldl (add_year_group vy) d ys))"
  by (induction ys arbitrary: d) (simp_all add: add_year_group_def Let_def distinct_update)

lemma keys_update_years:
  "fst ` set (update_years movies d) = fst ` set d \<union> {y. rows_of_year y movies \<noteq> []}"
proof -
  let ?vy = "filter (\<lambda>m. startYear m \<noteq> None \<and> numVotes m \<noteq> None) movies"
  have "{y. \<exists>m \<in> set ?vy. year_key m = Some y} = {y. rows_of_year y movies \<noteq> []}"
    by (auto simp: rows_of_year_def filter_empty_conv year_key_def)
  then show ?thesis
    by (simp add: update_years_def Let_def keys_foldl_groups set_map_filter)
qed

lemma distinct_update_years:
  "distinct (map fst d) \<Longrightarrow> distinct (map fst (update_years movies d))"
  by (simp add: update_years_def Let_def distinct_foldl_groups)

lemma year_weighted_sums_process_chunk:
  "year_weighted_sums (process_chunk num r s c)
     = update_years (chunk_movies num r c) (year_weighted_sums s)"
  by (simp add: process_chunk_def accumulate_def)

lemma distinct_foldl_chunks:
  "distinct (map fst (year_weighted_sums s)) \<Longrightarrow>
     distinct (map fst (year_weighted_sums (foldl (process_chunk num r) s chunks)))"
  by (induction chunks arbitrary: s)
     (simp_all add: year_weighted_sums_process_chunk distinct_update_years)

lemma keys_foldl_chunks:
  "fst ` set (year_weighted_sums (foldl (process_chunk num r) s chunks))
     = fst ` set (year_weighted_sums s) \<union> {y. rows_of_year y (all_movies num r chunks) \<noteq> []}"
proof (induction chunks arbitrary: s)
  case Nil
  then show ?case by (simp add: all_movies_def rows_of_year_def)
next
  case (Cons c cs)
  have "fst ` set (year_weighted_sums (foldl (process_chunk num r) s (c # cs)))
        = fst ` set (year_weighted_sums s) \<union> {y. rows_of_year y (chunk_movies num r c) \<noteq> []}
            \<union> {y. rows_of_year y (all_movies num r cs) \<noteq> []}"
    by (simp add: Cons.IH year_weighted_sums_process_chunk keys_update_years)
  also have "\<dots> = fst ` set (year_weighted_sums s)
            \<union> {y. rows_of_year y (all_movies num r (c # cs)) \<noteq> []}"
    unfolding all_movies_Cons rows_of_year_append by auto
  finally show ?case .
qed

lemma distinct_stream: "distinct (map fst (year_weighted_sums (stream num r chunks)))"
  unfolding stream_def by (rule distinct_foldl_chunks) (simp add: init_aggregators_def)

lemma keys_stream:
  "fst ` set (year_weighted_sums (stream num r chunks))
     = {y. rows_of_year y (all_movies num r chunks) \<noteq> []}"
  unfolding stream_def keys_foldl_chunks by (simp add: init_aggregators_def)

lemma year_get_member:
  assumes "distinct (map fst d)" "(y, p) \<in> set d"
  shows "year_get d y = p"
  using assms by (simp add: year_get_def)

lemma yearly_ratings_df_Inr:
  assumes "yearly_ratings_df d = Inr tbl"
  shows "tbl = sort_key fst (filter (\<lambda>(year, avg, v). avg \<noteq> None) (yearly_rating_records d))"
  using assms by (auto simp: yearly_ratings_df_def Let_def split: if_splits)

lemma set_yearly_ratings_df:
  assumes "yearly_ratings_df d = Inr tbl" and "distinct (map fst d)"
  shows "set tbl = (\<lambda>y. (y, Some (weighted_sum (year_get d y) / of_int (votes (year_get d y))),
                          votes (year_get d y)))
                     ` {y \<in> fst ` set d. votes (year_get d y) \<noteq> 0}"
    (is "_ = ?row ` ?keys")
proof -
  have get: "year_get d y = p" if "(y, p) \<in> set d" for y p
    using year_get_member[OF assms(2) that] .
  have set_tbl: "set tbl = {r \<in> set (yearly_rating_records d). fst (snd r) \<noteq> None}"
    unfolding yearly_ratings_df_Inr[OF assms(1)] by (auto simp: case_prod_beta)
  have rec: "set (yearly_rating_records d)
       = (\<lambda>(y, p). (y, (if votes p \<noteq> 0 then Some (weighted_sum p / of_int (votes p)) else None),
                      votes p)) ` set d"
    by (simp add: yearly_rating_records_def)
  show ?thesis
  proof (intro set_eqI iffI)
    fix r
    assume "r \<in> set tbl"
    then obtain y p where yp: "(y, p) \<in> set d"
      and r: "r = (y, (if votes p \<noteq> 0 then Some (weighted_sum p / of_int (votes p)) else None),
                   votes p)"
      and nn: "fst (snd r) \<noteq> None"
      unfolding set_tbl rec by auto
    have v: "votes p \<noteq> 0"
      using nn r by (simp split: if_splits)
    have "y \<in> ?keys"
      using yp v get[OF yp] by force
    moreover have "r = ?row y"
      using r v get[OF yp] by simp
    ultimately show "r \<in> ?row ` ?keys"
      by blast
  next
    fix r
    assume "r \<in> ?row ` ?keys"
    then obtain y where y: "y \<in> fst ` set d" "votes (year_get d y) \<noteq> 0" and r: "r = ?row y"
      by blast
    obtain p where yp: "(y, p) \<in> set d"
      using y(1) by auto
    have p: "year_get d y = p"
      by (rule get[OF yp])
    have "r \<in> set (yearly_rating_records d)"
      unfolding rec using yp y(2) r p by force
    then show "r \<in> set tbl"
      unfolding set_tbl using r by simp
  qed
qed

lemma sorted_yearly_ratings_df:
  assumes "yearly_ratings_df d = Inr tbl" and "distinct (map fst d)"
  shows "sorted (map fst tbl) \<and> distinct (map fst tbl)"
proof -
  let ?P = "\<lambda>(year, avg, v). avg \<noteq> (None :: rat option)"
  let ?xs = "filter ?P (yearly_rating_records d)"
  have tbl: "tbl = sort_key fst ?xs"
    by (rule yearly_ratings_df_Inr[OF assms(1)])
  have "map fst (yearly_rating_records d) = map fst d"
    by (simp add: yearly_rating_records_def case_prod_beta comp_def)
  then have "distinct (map fst (yearly_rating_records d))"
    using assms(2) by simp
  then have dx: "distinct (map fst ?xs)"
    by (rule distinct_map_filter)
  have "mset (map fst tbl) = mset (map fst ?xs)"
    unfolding tbl by simp
  then have "distinct (map fst tbl)"
    using dx mset_eq_imp_distinct_iff by blast
  then show ?thesis
    unfolding tbl by simp
qed

text \<open>The per-genre accumulator, and the sign of what a chunk adds.\<close>

lemma genre_get_add_genre_group:
  "genre_get (add_genre_group ex d genre) g =
     (if g = genre
      then \<lparr>weighted_sum = weighted_sum (genre_get d genre)
                + sum_rating_votes (map fst (filter (\<lambda>(m, t). t = genre) ex)),
            votes = votes (genre_get d genre)
                + sum_votes (map fst (filter (\<lambda>(m, t). t = genre) ex)),
            count_n = count_n (genre_get d genre)
                + length (map fst (filter (\<lambda>(m, t). t = genre) ex))\<rparr>
      else genre_get d g)"
  by (simp add: add_genre_group_def genre_get_def update_conv' Let_def
      nansum_rating_times_votes nansum_votes_float py_int_of_int)

lemma genre_get_foldl_groups:
  assumes "distinct gs"
  shows "genre_get (foldl (add_genre_group ex) d gs) g =
     (if g \<in> set gs
      then \<lparr>weighted_sum = weighted_sum (genre_get d g)
                + sum_rating_votes (map fst (filter (\<lambda>(m, t). t = g) ex)),
            votes = votes (genre_get d g)
                + sum_votes (map fst (filter (\<lambda>(m, t). t = g) ex)),
            count_n = count_n (genre_get d g)
                + length (map fst (filter (\<lambda>(m, t). t = g) ex))\<rparr>
      else genre_get d g)"
  using assms
proof (induction gs arbitrary: d)
  case Nil
  then show ?case by simp
next
  case (Cons a gs)
  then show ?case
    by (simp add: genre_get_add_genre_group)
qed

lemma explode_genres_known:
  "explode_genres (filter (\<lambda>m. genres m \<noteq> None) movies) = explode_genres movies"
  by (induction movies) (auto simp: explode_genres_def)

lemma explode_genres_append:
  "explode_genres (a @ b) = explode_genres a @ explode_genres b"
  by (simp add: explode_genres_def)

lemma rows_of_genre_append: "rows_of_genre g (a @ b) = rows_of_genre g a @ rows_of_genre g b"
  by (simp add: rows_of_genre_def explode_genres_append)

lemma genre_get_update_genres:
  "genre_get (update_genres movies d) g =
     \<lparr>weighted_sum = weighted_sum (genre_get d g) + sum_rating_votes (rows_of_genre g movies),
      votes = votes (genre_get d g) + sum_votes (rows_of_genre g movies),
      count_n = count_n (genre_get d g) + length (rows_of_genre g movies)\<rparr>"
proof -
  let ?gc = "filter (\<lambda>m. genres m \<noteq> None) movies"
  let ?ex = "explode_genres movies"
  let ?gs = "sort (remdups (map snd ?ex))"
  have d: "distinct ?gs"
    by simp
  have none: "rows_of_genre g movies = []" if "g \<notin> set ?gs"
    using that by (force simp: rows_of_genre_def filter_empty_conv)
  show ?thesis
  proof (cases "?gc = []")
    case True
    then have "explode_genres ?gc = []"
      by (simp add: explode_genres_def)
    then have "?ex = []"
      unfolding explode_genres_known .
    then have "rows_of_genre g movies = []"
      by (simp add: rows_of_genre_def)
    then show ?thesis
      using True by (simp add: update_genres_def sum_rating_votes_def sum_votes_def del: not_None_eq)
  next
    case False
    then have upd: "update_genres movies d = foldl (add_genre_group ?ex) d ?gs"
      by (simp add: update_genres_def Let_def explode_genres_known del: not_None_eq)
    show ?thesis
    proof (cases "g \<in> set ?gs")
      case True
      then show ?thesis
        unfolding upd genre_get_foldl_groups[OF d] by (simp add: rows_of_genre_def)
    next
      case False
      then show ?thesis
        unfolding upd genre_get_foldl_groups[OF d]
        by (simp add: none sum_rating_votes_def sum_votes_def)
    qed
  qed
qed

lemma genre_get_process_chunk:
  "genre_get (genre_stats (process_chunk num r s c)) g =
     \<lparr>weighted_sum = weighted_sum (genre_get (genre_stats s) g)
         + sum_rating_votes (rows_of_genre g (chunk_movies num r c)),
      votes = votes (genre_get (genre_stats s) g)
         + sum_votes (rows_of_genre g (chunk_movies num r c)),
      count_n = count_n (genre_get (genre_stats s) g)
         + length (rows_of_genre g (chunk_movies num r c))\<rparr>"
  by (simp add: process_chunk_def accumulate_def genre_get_update_genres)

lemma genre_get_foldl_chunks:
  "genre_get (genre_stats (foldl (process_chunk num r) s chunks)) g =
     \<lparr>weighted_sum = weighted_sum (genre_get (genre_stats s) g)
         + sum_rating_votes (rows_of_genre g (all_movies num r chunks)),
      votes = votes (genre_get (genre_stats s) g)
         + sum_votes (rows_of_genre g (all_movies num r chunks)),
      count_n = count_n (genre_get (genre_stats s) g)
         + length (rows_of_genre g (all_movies num r chunks))\<rparr>"
proof (induction chunks arbitrary: s)
  case Nil
  then show ?case
    by (simp add: all_movies_def rows_of_genre_def explode_genres_def sum_rating_votes_def
        sum_votes_def)
next
  case (Cons c cs)
  show ?case
    by (simp add: Cons.IH genre_get_process_chunk all_movies_Cons rows_of_genre_append
        sum_rating_votes_append sum_votes_append)
qed

lemma chunk_movies_rated:
  assumes "m \<in> set (chunk_movies num r c)"
  shows "\<exists>k v. (k, averageRating m, v) \<in> set r \<and> numVotes m = Some v"
  using assms by (auto simp: chunk_movies_def join_inner_def lookup_def coerce_def)

lemma all_movies_rated:
  assumes "m \<in> set (all_movies num r chunks)"
  shows "\<exists>k v. (k, averageRating m, v) \<in> set r \<and> numVotes m = Some v"
  using assms chunk_movies_rated by (fastforce simp: all_movies_def)

lemma sum_rating_votes_nonneg:
  assumes "\<forall>m \<in> set rows. nonneg_rating (averageRating m) \<and> 0 \<le> known_votes (numVotes m)"
  shows "0 \<le> sum_rating_votes rows"
  unfolding sum_rating_votes_def using assms
  by (intro sum_list_nonneg) (auto simp: nonneg_rating_def split: option.splits)

lemma sum_votes_nonneg:
  assumes "\<forall>m \<in> set rows. nonneg_rating (averageRating m) \<and> 0 \<le> known_votes (numVotes m)"
  shows "0 \<le> sum_votes rows"
  unfolding sum_votes_def using assms by (intro sum_list_nonneg) auto

lemma all_movies_nonneg:
  assumes "\<forall>(k, rt, v) \<in> set r. nonneg_rating rt \<and> 0 \<le> v"
    and "m \<in> set (all_movies num r chunks)"
  shows "nonneg_rating (averageRating m) \<and> 0 \<le> known_votes (numVotes m)"
proof -
  obtain k v where "(k, averageRating m, v) \<in> set r" "numVotes m = Some v"
    using all_movies_rated[OF assms(2)] by blast
  then show ?thesis
    using assms(1) by (auto simp: known_votes_def)
qed

text \<open>The yearly table in terms of the joined rows of the whole run: the quotient of the
  accumulated sums, for the years whose votes do not add up to zero.\<close>

lemma yearly_table_rows:
  assumes "analyse num ratings chunks = Inr rep"
  shows "(\<forall>(year, avg, v) \<in> set (yearly_ratings_out rep).
            v = sum_votes (rows_of_year year (all_movies num (set_index ratings) chunks))
            \<and> v \<noteq> 0
            \<and> avg = Some (sum_rating_votes (rows_of_year year (all_movies num (set_index ratings) chunks))
                           / of_int (sum_votes (rows_of_year year (all_movies num (set_index ratings) chunks)))))
       \<and> fst ` set (yearly_ratings_out rep)
           = {year. sum_votes (rows_of_year year (all_movies num (set_index ratings) chunks)) \<noteq> 0}
       \<and> sorted (map fst (yearly_ratings_out rep))
       \<and> distinct (map fst (yearly_ratings_out rep))"
proof -
  let ?M = "all_movies num (set_index ratings) chunks"
  let ?d = "year_weighted_sums (stream num (set_index ratings) chunks)"
  let ?W = "\<lambda>y. sum_rating_votes (rows_of_year y ?M)"
  let ?V = "\<lambda>y. sum_votes (rows_of_year y ?M)"
  have df: "yearly_ratings_df ?d = Inr (yearly_ratings_out rep)"
    by (rule finalize_InrD(2)[OF analyse_InrD[OF assms]])
  have dist: "distinct (map fst ?d)"
    by (rule distinct_stream)
  have ws: "weighted_sum (year_get ?d y) = ?W y" and vs: "votes (year_get ?d y) = ?V y" for y
    by (simp_all add: year_get_stream)
  have keys: "{y \<in> fst ` set ?d. ?V y \<noteq> 0} = {y. ?V y \<noteq> 0}"
    unfolding keys_stream by (auto simp: sum_votes_def)
  have rows: "set (yearly_ratings_out rep)
                = (\<lambda>y. (y, Some (?W y / of_int (?V y)), ?V y)) ` {y. ?V y \<noteq> 0}"
    using set_yearly_ratings_df[OF df dist] unfolding ws vs keys .
  have a: "\<forall>(year, avg, v) \<in> set (yearly_ratings_out rep).
            v = ?V year \<and> v \<noteq> 0 \<and> avg = Some (?W year / of_int (?V year))"
    unfolding rows by auto
  have b: "fst ` set (yearly_ratings_out rep) = {year. ?V year \<noteq> 0}"
    unfolding rows by (auto simp: image_iff)
  show ?thesis
    using a b sorted_yearly_ratings_df[OF df dist] by blast
qed

text \<open>When every row of a year has a rating, the quotient is the weighted average of
  the rows.\<close>

lemma spec_weighted_average_all_rated:
  assumes "\<forall>m \<in> set (rows_of_year y movies). averageRating m \<noteq> None"
    and "sum_votes (rows_of_year y movies) \<noteq> 0"
  shows "spec_weighted_average (rows_of_year y movies)
           = Some (sum_rating_votes (rows_of_year y movies)
                     / of_int (sum_votes (rows_of_year y movies)))"
proof -
  have "\<forall>m \<in> set (rows_of_year y movies). averageRating m \<noteq> None \<and> numVotes m \<noteq> None"
    using assms(1) by (auto simp: rows_of_year_def)
  then have "rated_rows (rows_of_year y movies) = rows_of_year y movies"
    unfolding rated_rows_def by (rule filter_True)
  then show ?thesis
    using assms(2) by (simp add: spec_weighted_average_def)
qed

text \<open>When the run ends with a report.\<close>

lemma length_frames_foldl:
  "length (top_titles_frames (foldl (process_chunk num r) s chunks))
     = length (top_titles_frames s) + length chunks"
  by (induction chunks arbitrary: s) (simp_all add: process_chunk_def accumulate_def)

lemma analyse_report:
  assumes "year_weighted_sums (stream num (set_index ratings) chunks) \<noteq> []"
    and "genre_stats (stream num (set_index ratings) chunks) \<noteq> []"
    and "chunks \<noteq> []"
  shows "analyse num ratings chunks = Inr (projr (analyse num ratings chunks))"
    and "yearly_ratings_df (year_weighted_sums (stream num (set_index ratings) chunks))
           = Inr (yearly_ratings_out (projr (analyse num ratings chunks)))"
proof -
  let ?s = "stream num (set_index ratings) chunks"
  have "length (top_titles_frames ?s) = length chunks"
    unfolding stream_def length_frames_foldl by (simp add: init_aggregators_def)
  then have "top_titles_frames ?s \<noteq> []"
    using assms(3) by auto
  then have "finalize (set_index ratings) ?s = Inr (projr (finalize (set_index ratings) ?s))"
    using assms(1,2) by (subst finalize_cases) simp
  then show h: "analyse num ratings chunks = Inr (projr (analyse num ratings chunks))"
    by (simp add: analyse_def Let_def)
  show "yearly_ratings_df (year_weighted_sums ?s)
           = Inr (yearly_ratings_out (projr (analyse num ratings chunks)))"
    by (rule finalize_InrD(2)[OF analyse_InrD[OF h]])
qed

section \<open>The claims\<close>

subsection \<open>Rating index\<close>

text \<open>
  C9 (as amended). The specification says that the index holds exactly one record per
  identifier, duplicates being resolved first-wins or last-wins. \<open>set_index\<close> does
  not resolve anything: the index keeps every input record, a lookup yields as many
  records as the identifier occurs in the input, and the inner join emits a title
  once per rating record found. Nothing raises. Only for an input whose identifiers
  are pairwise distinct does a lookup yield at most one record.
\<close>

theorem rating_index_keeps_every_record:
  "length (lookup (set_index ratings) k) = count_list (map fst ratings) k
   \<and> length (join_inner movies (set_index ratings))
       = (\<Sum>m \<leftarrow> movies. count_list (map fst ratings) (tconst m))
   \<and> (distinct (map fst ratings) \<longrightarrow> length (lookup (set_index ratings) k) \<le> 1)"
  using count_list_distinct_le[of "map fst ratings" k]
  by (simp add: set_index_def length_lookup length_join_inner)

theorem rating_index_keeps_every_record_witness:
  "distinct (map fst demo_ratings)
   \<and> length (lookup (set_index demo_ratings) ''t1'') \<le> 1
   \<and> length (join_inner [spec_title1] (set_index [(''t1'', Some 8, 100), (''t1'', Some 6, 50)])) = 2"
proof -
  have d: "distinct (map fst demo_ratings)"
    by (simp add: demo_ratings_def)
  have "length (lookup (set_index demo_ratings) ''t1'') \<le> 1"
    using rating_index_keeps_every_record[of demo_ratings "''t1''" "[]"] d by blast
  moreover have "length (join_inner [spec_title1] (set_index [(''t1'', Some 8, 100), (''t1'', Some 6, 50)])) = 2"
    using rating_index_keeps_every_record[of "[(''t1'', Some 8, 100), (''t1'', Some 6, 50)]" "''t1''" "[spec_title1]"]
    by (simp add: spec_title1_def)
  ultimately show ?thesis
    using d by simp
qed

text \<open>C9, the counterexample: an identifier rated twice has two records in the index,
  and its title is joined twice.\<close>

theorem duplicate_rating_two_records:
  "lookup (set_index [(''t1'', Some 8, 100), (''t1'', Some 6, 50)]) ''t1'' = [(Some 8, 100), (Some 6, 50)]
   \<and> map (\<lambda>m. (tconst m, averageRating m, numVotes m))
        (join_inner [spec_title1] (set_index [(''t1'', Some 8, 100), (''t1'', Some 6, 50)]))
       = [(''t1'', Some 8, Some 100), (''t1'', Some 6, Some 50)]"
  by (simp add: set_index_def lookup_def join_inner_def spec_title1_def)

subsection \<open>Movies per year\<close>

text \<open>
  C10. Whenever the run produces a report, the movies-per-year table holds only years
  from 1900 on: it is the counter's entries with the earlier years dropped (as a
  multiset; the rows are ordered by year). The summary metric \<open>total_rated_movies\<close>
  is the sum of the counts of the years from 1900 on, not of all accumulated years.
\<close>

theorem movies_per_year_from_1900:
  assumes "finalize ratings_df s = Inr rep"
  shows "(\<forall>(year, n) \<in> set (movies_per_year_out rep). 1900 \<le> year)
       \<and> mset (movies_per_year_out rep)
           = filter_mset (\<lambda>(year, n). 1900 \<le> year) (mset (movies_per_year s))
       \<and> s_total_rated_movies (summaries_out rep)
           = (\<Sum>(year, n) \<leftarrow> filter (\<lambda>(year, n). 1900 \<le> year) (movies_per_year s). int n)"
proof -
  let ?c = "movies_per_year s"
  let ?late = "filter (\<lambda>(year, n). 1900 \<le> year) ?c"
  have out: "movies_per_year_out rep = movies_per_year_df ?c"
    and tot: "s_total_rated_movies (summaries_out rep) = total_rated_movies ?c"
    using finalize_InrD[OF assms] by simp_all
  have m: "mset (movies_per_year_df ?c) = mset ?late"
    by (simp add: mset_movies_per_year_df)
  have a: "\<forall>(year, n) \<in> set (movies_per_year_df ?c). 1900 \<le> year"
    by (auto simp: movies_per_year_df_def)
  have "total_rated_movies ?c = (\<Sum>(y, n) \<leftarrow> movies_per_year_df ?c. int n)"
    unfolding total_rated_movies_def by (rule int_sum_list_snd)
  also have "\<dots> = (\<Sum>(y, n) \<leftarrow> ?late. int n)"
    by (rule sum_list_map_mset_cong[OF m])
  finally show ?thesis
    using out tot a m by simp
qed

text \<open>On the second example the counter holds 1899 and 2000; the table and the
  metric see 2000 only.\<close>

theorem movies_per_year_from_1900_witness:
  "finalize demo_ratings state2 = Inr demo_report
   \<and> movies_per_year state2 = [(2000, 2), (1899, 1)]
   \<and> mset (movies_per_year_out demo_report) = {#(2000, 2)#}
   \<and> s_total_rated_movies (summaries_out demo_report) = 2"
proof -
  have h: "finalize demo_ratings state2 = Inr demo_report"
    by (rule finalize_demo)
  show ?thesis
    using h movies_per_year_from_1900[OF h] by (simp add: state2_def)
qed

subsection \<open>Top titles by votes\<close>

text \<open>
  C2. Whenever the run produces a report, the top-by-votes table has no identifier
  twice, is ordered by descending vote count, has at most 20 rows, and none of its
  rows lacks a vote count. Its rows are candidates collected during streaming.
\<close>

theorem top_titles_table:
  assumes "finalize ratings_df s = Inr rep"
  shows "distinct (map top_tconst (top_titles_out rep))
       \<and> sorted_wrt (\<lambda>a b. known_votes (top_numVotes a) \<ge> known_votes (top_numVotes b))
           (top_titles_out rep)
       \<and> length (top_titles_out rep) \<le> 20
       \<and> (\<forall>r \<in> set (top_titles_out rep). top_numVotes r \<noteq> None)
       \<and> set (top_titles_out rep) \<subseteq> set (concat (top_titles_frames s))"
proof -
  let ?key = "\<lambda>r. - known_votes (top_numVotes r)"
  let ?cand = "filter (\<lambda>r. top_numVotes r \<noteq> None) (concat (top_titles_frames s))"
  let ?dedup = "drop_duplicates [] (sort_key ?key ?cand)"
  have tbl: "top_titles_out rep = take 20 ?dedup"
    using finalize_InrD(4)[OF assms] by (rule top_titles_df_Inr)
  have "sorted (map ?key (sort_key ?key ?cand))"
    by (rule sorted_sort_key)
  then have "sorted_wrt (\<lambda>a b. ?key a \<le> ?key b) (sort_key ?key ?cand)"
    by (simp add: sorted_map)
  then have "sorted_wrt (\<lambda>a b. ?key a \<le> ?key b) ?dedup"
    by (rule sorted_wrt_drop_duplicates)
  then have srt: "sorted_wrt (\<lambda>a b. known_votes (top_numVotes a) \<ge> known_votes (top_numVotes b))
           (take 20 ?dedup)"
    by (simp add: sorted_wrt_take)
  have "distinct (map top_tconst ?dedup)"
    by (rule distinct_drop_duplicates)
  then have dis: "distinct (map top_tconst (take 20 ?dedup))"
    by (simp add: take_map[symmetric] distinct_take del: take_map)
  have sub: "set (take 20 ?dedup) \<subseteq> set ?cand"
    using set_take_subset[of 20 ?dedup] set_drop_duplicates[of "[]" "sort_key ?key ?cand"]
    by auto
  show ?thesis
    using tbl srt dis sub by auto
qed

theorem top_titles_table_witness:
  "finalize demo_ratings state2 = Inr demo_report
   \<and> map top_tconst (top_titles_out demo_report) = [''t3'', ''t1'', ''t2'']
   \<and> distinct (map top_tconst (top_titles_out demo_report))
   \<and> length (top_titles_out demo_report) \<le> 20"
proof -
  have h: "finalize demo_ratings state2 = Inr demo_report"
    by (rule finalize_demo)
  have "map top_tconst (top_titles_out demo_report) = [''t3'', ''t1'', ''t2'']"
    by (simp add: demo_report_def top_tconst_def)
  then show ?thesis
    using h top_titles_table[OF h] by simp
qed

subsection \<open>Runtime distribution\<close>

text \<open>
  C3. The specification says that the runtime distribution uses the edges 0, 60, 75, 90, 105, 120, 150,
  180, with an overflow bin up to the observed maximum when a sample exceeds 180, and
  the bin counts add up to the number of runtime samples. The edges are as stated
  (\<^const>\<open>runtime_edges\<close>), but the counts do not always add up: the second example
  collects the samples 90, 100 and 180. The largest sample is exactly 180, so the test
  \<open>max_runtime > 180\<close> adds no overflow bin, \<open>pd.cut(..., right=False)\<close> leaves 180
  outside \<open>[150, 180)\<close>, and the bin counts add up to 2 for 3 samples; for the single
  sample 180 they add up to 0. The label \<open>180+\<close> of the script says where the sample
  was meant to go. (When no sample is negative and the largest is not exactly 180,
  every sample is counted: \<open>runtime_bins_total\<close>.)
\<close>

theorem runtime_180_in_no_bin:
  "analyse to_numeric demo_ratings [demo_chunk1, demo_chunk2] = Inr demo_report
   \<and> runtime_minutes (stream to_numeric demo_ratings [demo_chunk1, demo_chunk2]) = [90, 100, 180]
   \<and> sum_list (map snd (runtime_bins_out demo_report)) = 2
   \<and> sum_list (map snd (runtime_bins_df [180])) = 0"
  by (simp add: analyse_demo stream_demo state2_def demo_report_def stat_eval)

subsection \<open>Popularity bands\<close>

text \<open>
  C4. Whenever the run produces a report, the popularity table is computed from the
  collected rows, which are the joined rows with at least 50,000 votes. Each collected
  row has a vote count of at least 50,000 and lies in exactly one of the seven bands;
  the counts of the table add up to the number of collected rows, so no row is counted
  twice or dropped. Band \<open>i\<close> holds the vote counts from edge \<open>i\<close> up to, and excluding,
  edge \<open>i + 1\<close> of \<open>50k, 100k, 200k, 500k, 1M, 2M, 5M, inf\<close>.
\<close>

theorem popularity_bands_partition:
  assumes "analyse num ratings chunks = Inr rep"
  shows "popularity_out rep
           = popularity_df (popular_subset (all_movies num (set_index ratings) chunks))
       \<and> (\<forall>r \<in> set (popular_subset (all_movies num (set_index ratings) chunks)).
             \<exists>v. snd r = Some v \<and> 50000 \<le> v \<and> (\<exists>!i. i < 7 \<and> vote_band r = Some i))
       \<and> sum_list (map (\<lambda>row. fst (snd row)) (popularity_out rep))
           = length (popular_subset (all_movies num (set_index ratings) chunks))
       \<and> (\<forall>x v i. vote_band (x, Some v) = Some i \<longleftrightarrow>
             i < 7 \<and> edge_le (vote_bins ! i) (of_int v)
             \<and> \<not> edge_le (vote_bins ! Suc i) (of_int v))"
proof -
  let ?sc = "popular_subset (all_movies num (set_index ratings) chunks)"
  have out: "popularity_out rep = popularity_df ?sc"
    using finalize_InrD(6)[OF analyse_InrD[OF assms]] by (simp add: scatter_stream)
  have band: "\<exists>v. snd r = Some v \<and> 50000 \<le> v \<and> (\<exists>!i. i < 7 \<and> vote_band r = Some i)"
    if r: "r \<in> set ?sc" for r
  proof -
    obtain v where v: "snd r = Some v" "50000 \<le> v"
      using popular_subset_votes[OF r] by blast
    obtain i where "i < 7" "vote_band (fst r, Some v) = Some i"
      using vote_band_exists[OF v(2)] by blast
    then have "\<exists>!i. i < 7 \<and> vote_band r = Some i"
      using v(1) by (cases r) auto
    then show ?thesis
      using v by blast
  qed
  have total: "\<forall>r \<in> set ?sc. \<exists>i<7. vote_band r = Some i"
    using band by blast
  have "sum_list (map (\<lambda>row. fst (snd row)) (popularity_df ?sc)) = length ?sc"
  proof (cases "?sc = []")
    case True
    then show ?thesis by (simp add: popularity_df_def)
  next
    case False
    then show ?thesis
      using sum_band_counts[OF total] popularity_df_counts(2)[OF False] by simp
  qed
  then show ?thesis
    using out band vote_band_interval by auto
qed

text \<open>On the second example one row is collected, and the counts add up to one.\<close>

theorem popularity_bands_partition_witness:
  "analyse to_numeric demo_ratings [demo_chunk1, demo_chunk2] = Inr demo_report
   \<and> popular_subset (all_movies to_numeric (set_index demo_ratings) [demo_chunk1, demo_chunk2])
       = [(Some 7, Some 60000)]
   \<and> sum_list (map (\<lambda>row. fst (snd row)) (popularity_out demo_report)) = 1"
proof -
  have h: "analyse to_numeric demo_ratings [demo_chunk1, demo_chunk2] = Inr demo_report"
    by (rule analyse_demo)
  have sc: "popular_subset (all_movies to_numeric (set_index demo_ratings) [demo_chunk1, demo_chunk2])
              = [(Some 7, Some 60000)]"
    by (simp add: all_movies_def set_index_def chunk_movies_demo1 chunk_movies_demo2
        popular_subset_def movie1_def movie2_def movie3_def)
  have "sum_list (map (\<lambda>row. fst (snd row)) (popularity_out demo_report))
          = length (popular_subset
              (all_movies to_numeric (set_index demo_ratings) [demo_chunk1, demo_chunk2]))"
    using popularity_bands_partition[OF h] by (elim conjE)
  then show ?thesis
    using h sc by simp
qed

text \<open>
  C5 (as amended). The specification says that bands without members are omitted. The
  script groups with \<open>observed=False\<close>, which keeps every category: as soon as one row
  was collected the table has one row for each of the seven bands, in the order of the
  labels, and a row's count is the number of collected rows in that band, zero
  included. A row with count zero has no mean rating and no median of votes. Without
  any collected row the table is empty.
\<close>

theorem popularity_table_has_every_band:
  "popularity_df [] = []
   \<and> (scatter \<noteq> [] \<longrightarrow>
        map fst (popularity_df scatter) = vote_labels
        \<and> map (\<lambda>row. fst (snd row)) (popularity_df scatter)
            = map (\<lambda>i. length (filter (\<lambda>r. vote_band r = Some i) scatter)) [0..<7])
   \<and> (\<forall>row \<in> set (popularity_df scatter).
         fst (snd row) = 0 \<longrightarrow> fst (snd (snd row)) = None \<and> snd (snd (snd row)) = None)"
  using popularity_df_counts[of scatter] popularity_df_empty_band[of _ scatter]
  by (simp add: popularity_df_def)

text \<open>One collected row: the first band has it, the other six are in the table with
  count zero, and the second has neither mean nor median.\<close>

theorem popularity_table_has_every_band_witness:
  "[(Some 7, Some 60000)] \<noteq> ([] :: (rat option \<times> int option) list)
   \<and> map (\<lambda>row. fst (snd row)) (popularity_df [(Some 7, Some 60000)]) = [1, 0, 0, 0, 0, 0, 0]
   \<and> popularity_df [(Some 7, Some 60000)] ! 1 \<in> set (popularity_df [(Some 7, Some 60000)])
   \<and> fst (snd (snd (popularity_df [(Some 7, Some 60000)] ! 1))) = None
   \<and> snd (snd (snd (popularity_df [(Some 7, Some 60000)] ! 1))) = None"
proof -
  let ?tbl = "popularity_df [(Some 7, Some 60000)]"
  have counts: "map (\<lambda>row. fst (snd row)) ?tbl = [1, 0, 0, 0, 0, 0, 0]"
    using popularity_table_has_every_band[of "[(Some 7, Some 60000)]"]
    by (simp add: vote_band_def vote_bins_def cut_bin_def upt_rec)
  have "length (map (\<lambda>row. fst (snd row)) ?tbl) = length [1, 0, 0, 0, 0, 0, 0 :: nat]"
    by (simp only: counts)
  then have len: "length ?tbl = 7"
    by simp
  have mem: "?tbl ! 1 \<in> set ?tbl"
    using len by simp
  have "map (\<lambda>row. fst (snd row)) ?tbl ! 1 = 0"
    unfolding counts by simp
  then have zero: "fst (snd (?tbl ! 1)) = 0"
    using len by simp
  have "fst (snd (snd (?tbl ! 1))) = None \<and> snd (snd (snd (?tbl ! 1))) = None"
    using popularity_table_has_every_band[of "[(Some 7, Some 60000)]"] mem zero by blast
  then show ?thesis
    using counts mem by simp
qed

text \<open>C5, the counterexample: on the second example one row is collected, and the band
  100k-200k is in the table with count zero.\<close>

theorem empty_band_in_table:
  "analyse to_numeric demo_ratings [demo_chunk1, demo_chunk2] = Inr demo_report
   \<and> popularity_out demo_report ! 1 = (''100k-200k'', 0, None, None)"
  by (simp add: analyse_demo demo_report_def)

subsection \<open>Empty accumulators\<close>

text \<open>
  C8. The specification says that with an empty runtime collection, an empty popularity collection or no
  year with votes, also when no row is joined at all, the finalisation still produces
  its tables, with undefined statistics. The code does not: with one rated title and a
  chunk that holds no movie, no row is joined and the per-year accumulator has no key.
  \<open>pd.DataFrame([])\<close> then has no column \<open>weighted_average_rating\<close> and
  \<open>dropna(subset=...)\<close> raises \<open>KeyError\<close>: the run ends without a report. The same
  happens on empty ratings and an empty chunk. (The finalisation raises exactly when an
  accumulator has no key or no chunk was read, \<open>finalize_cases\<close>; empty runtime and
  popularity collections alone are handled, \<open>finalize_empty_collections\<close>.)
\<close>

theorem no_joined_row_KeyError:
  "analyse to_numeric [(''t1'', Some 8, 100)]
     [[\<lparr>tconst = ''t4'', titleType = Some ''short'', primaryTitle = Some ''D'',
        startYear = Some ''2001'', runtimeMinutes = None, genres = Some ''Short''\<rparr>]]
     = Inl KeyError
   \<and> analyse to_numeric [] [[]] = Inl KeyError"
  by (simp add: analyse_def set_index_def stream_def process_chunk_def chunk_movies_def
      join_inner_def lookup_def accumulate_def init_aggregators_def acc_eval finalize_def fin_eval)

subsection \<open>The end-to-end example\<close>

text \<open>
  C6. On the example of the specification the run produces a report in which the year
  2000 has the weighted rating 22/3 = 7.333..., Drama has 22/3 and Comedy 6, and the
  movies-per-year count of 2000 is 2. The movie with two genres is in both genre
  accumulators: Drama has two titles, Comedy one.
\<close>

theorem spec_example:
  "analyse to_numeric spec_ratings [[spec_title1, spec_title2]] = Inr spec_report
   \<and> yearly_ratings_out spec_report = [(2000, Some (22 / 3), 150)]
   \<and> genre_out spec_report = [(''Drama'', 2, 150, Some (22 / 3)), (''Comedy'', 1, 50, Some 6)]
   \<and> movies_per_year_out spec_report = [(2000, 2)]
   \<and> genre_stats (stream to_numeric spec_ratings [[spec_title1, spec_title2]])
       = [(''Comedy'', \<lparr>weighted_sum = 300, votes = 50, count_n = 1\<rparr>),
          (''Drama'', \<lparr>weighted_sum = 1100, votes = 150, count_n = 2\<rparr>)]"
proof -
  have "analyse to_numeric spec_ratings [[spec_title1, spec_title2]] = Inr spec_report"
    by (simp add: analyse_def set_index_def stream_spec finalize_spec)
  moreover have "genre_stats (stream to_numeric spec_ratings [[spec_title1, spec_title2]])
       = [(''Comedy'', \<lparr>weighted_sum = 300, votes = 50, count_n = 1\<rparr>),
          (''Drama'', \<lparr>weighted_sum = 1100, votes = 150, count_n = 2\<rparr>)]"
    by (simp add: stream_spec state1_def)
  ultimately show ?thesis
    by (simp add: spec_report_def)
qed

subsection \<open>Monotone accumulation\<close>

text \<open>
  C7. If no rating (where one is given) and no vote count of the ratings table is
  negative then, from any
  state of the accumulators and over any number of further chunks, the weighted sum and
  the vote total stored under a year, and the weighted sum, the vote total and the title
  count stored under a genre, do not decrease. (A key that is not yet stored reads as the
  default payload of the \<open>defaultdict\<close>, all zero.) The payloads \<^typ>\<open>year_acc\<close> and
  \<^typ>\<open>genre_acc\<close> have no field for an average: the streaming loop stores sums only, and
  the averages are computed in \<^const>\<open>yearly_rating_records\<close> and
  \<^const>\<open>genre_records\<close>, at finalisation.
\<close>

theorem accumulation_monotone:
  assumes "\<forall>(k, rt, v) \<in> set ratings_df. nonneg_rating rt \<and> 0 \<le> v"
  shows "weighted_sum (year_get (year_weighted_sums s) y)
           \<le> weighted_sum (year_get (year_weighted_sums
                 (foldl (process_chunk num ratings_df) s chunks)) y)
       \<and> votes (year_get (year_weighted_sums s) y)
           \<le> votes (year_get (year_weighted_sums
                 (foldl (process_chunk num ratings_df) s chunks)) y)
       \<and> weighted_sum (genre_get (genre_stats s) g)
           \<le> weighted_sum (genre_get (genre_stats
                 (foldl (process_chunk num ratings_df) s chunks)) g)
       \<and> votes (genre_get (genre_stats s) g)
           \<le> votes (genre_get (genre_stats
                 (foldl (process_chunk num ratings_df) s chunks)) g)
       \<and> count_n (genre_get (genre_stats s) g)
           \<le> count_n (genre_get (genre_stats
                 (foldl (process_chunk num ratings_df) s chunks)) g)"
proof -
  let ?M = "all_movies num ratings_df chunks"
  have nn: "nonneg_rating (averageRating m) \<and> 0 \<le> known_votes (numVotes m)"
    if "m \<in> set ?M" for m
    using all_movies_nonneg[OF assms that] .
  have yr: "\<forall>m \<in> set (rows_of_year y ?M).
              nonneg_rating (averageRating m) \<and> 0 \<le> known_votes (numVotes m)"
    using nn by (auto simp: rows_of_year_def)
  have "set (rows_of_genre g ?M) \<subseteq> set ?M"
    by (auto simp: rows_of_genre_def explode_genres_def split: option.splits)
  then have gr: "\<forall>m \<in> set (rows_of_genre g ?M).
              nonneg_rating (averageRating m) \<and> 0 \<le> known_votes (numVotes m)"
    using nn by blast
  show ?thesis
    using sum_rating_votes_nonneg[OF yr] sum_votes_nonneg[OF yr]
      sum_rating_votes_nonneg[OF gr] sum_votes_nonneg[OF gr]
    by (simp add: year_get_foldl_chunks genre_get_foldl_chunks)
qed

theorem accumulation_monotone_witness:
  "list_all (\<lambda>(k, rt, v). nonneg_rating rt \<and> 0 \<le> v) demo_ratings
   \<and> foldl (process_chunk to_numeric demo_ratings) state1 [demo_chunk2] = state2
   \<and> weighted_sum (year_get (year_weighted_sums state1) 1899) = 0
   \<and> weighted_sum (year_get (year_weighted_sums state2) 1899) = 420000
   \<and> weighted_sum (year_get (year_weighted_sums state1) 1899)
       \<le> weighted_sum (year_get (year_weighted_sums state2) 1899)"
proof -
  have hyp: "\<forall>(k, rt, v) \<in> set demo_ratings. nonneg_rating rt \<and> 0 \<le> v"
    by (simp add: demo_ratings_def nonneg_rating_def)
  have step: "foldl (process_chunk to_numeric demo_ratings) state1 [demo_chunk2] = state2"
    by (simp add: process_chunk_def chunk_movies_demo2 accumulate_state2)
  have "weighted_sum (year_get (year_weighted_sums state1) 1899)
          \<le> weighted_sum (year_get (year_weighted_sums state2) 1899)"
    using accumulation_monotone[OF hyp, where s = state1 and y = 1899 and num = to_numeric
        and chunks = "[demo_chunk2]" and g = "''Drama''"]
    unfolding step by blast
  moreover have "weighted_sum (year_get (year_weighted_sums state1) 1899) = 0"
    by (simp add: state1_def year_get_def year_default_def)
  moreover have "weighted_sum (year_get (year_weighted_sums state2) 1899) = 420000"
    by (simp add: state2_def year_get_def)
  moreover have "list_all (\<lambda>(k, rt, v). nonneg_rating rt \<and> 0 \<le> v) demo_ratings"
    by (simp add: demo_ratings_def nonneg_rating_def)
  ultimately show ?thesis
    using step by blast
qed

subsection \<open>Yearly weighted rating\<close>

text \<open>
  C1. The specification says that every row of the yearly ratings table reports the sum
  of rating times votes over the joined movie rows of its year with a known vote count,
  divided by the sum of their votes, and that a year whose votes add up to zero is left
  out rather than reported as zero. The code does so when every such row has a rating
  (\<open>yearly_table_rows\<close>, \<open>spec_weighted_average_all_rated\<close>), and it leaves out a year
  without votes: on the third example the table is empty. But \<open>averageRating\<close> may be
  missing, \<open>dropna\<close> at line 116 keeps such a row, the sum at line 121 skips its product
  and line 122 still adds its votes. On the fourth example the two movies of 2000 have
  ten votes each and only the second has a rating, 8: the table reports 4 over 20
  votes, where the weighted average of the rows is 8. With the unrated movie alone the
  table reports the average 0 over 10 votes, where no average is defined.
\<close>

theorem unrated_votes_in_yearly_average:
  "analyse to_numeric unrated_ratings [[spec_title1, spec_title2]]
     = Inr (projr (analyse to_numeric unrated_ratings [[spec_title1, spec_title2]]))
   \<and> yearly_ratings_out (projr (analyse to_numeric unrated_ratings [[spec_title1, spec_title2]]))
       = [(2000, Some 4, 20)]
   \<and> rows_of_year 2000 (all_movies to_numeric (set_index unrated_ratings)
        [[spec_title1, spec_title2]]) = [unrated1, unrated2]
   \<and> spec_weighted_average [unrated1, unrated2] = Some 8
   \<and> analyse to_numeric [(''t1'', None, 10)] [[spec_title1]]
       = Inr (projr (analyse to_numeric [(''t1'', None, 10)] [[spec_title1]]))
   \<and> yearly_ratings_out (projr (analyse to_numeric [(''t1'', None, 10)] [[spec_title1]]))
       = [(2000, Some 0, 10)]
   \<and> rows_of_year 2000 (all_movies to_numeric (set_index [(''t1'', None, 10)])
        [[spec_title1]]) = [unrated1]
   \<and> spec_weighted_average [unrated1] = None
   \<and> yearly_ratings_out (projr (analyse to_numeric unvoted_ratings [[spec_title1]])) = []"
proof -
  let ?two = "[[spec_title1, spec_title2]]"
  let ?one = "[[spec_title1]]"
  have s2: "stream to_numeric (set_index unrated_ratings) ?two
              = accumulate init_aggregators [unrated1, unrated2]"
    by (simp add: stream_def process_chunk_def set_index_def chunk_movies_unrated)
  have y2: "year_weighted_sums (accumulate init_aggregators [unrated1, unrated2])
              = [(2000, \<lparr>weighted_sum = 80, votes = 20\<rparr>)]"
    by (simp add: accumulate_def init_aggregators_def unrated1_def unrated2_def acc_eval)
  have g2: "genre_stats (accumulate init_aggregators [unrated1, unrated2]) \<noteq> []"
    by (simp add: accumulate_def init_aggregators_def unrated1_def unrated2_def acc_eval)
  have r2: "yearly_ratings_out (projr (analyse to_numeric unrated_ratings ?two))
              = [(2000, Some 4, 20)]"
    using analyse_report(2)[of to_numeric unrated_ratings ?two] g2
    unfolding s2 y2 by (simp add: fin_eval)
  have a2: "analyse to_numeric unrated_ratings ?two
              = Inr (projr (analyse to_numeric unrated_ratings ?two))"
    using analyse_report(1)[of to_numeric unrated_ratings ?two] g2
    unfolding s2 y2 by simp
  have m2: "rows_of_year 2000 (all_movies to_numeric (set_index unrated_ratings) ?two)
              = [unrated1, unrated2]"
    by (simp add: all_movies_def set_index_def chunk_movies_unrated rows_of_year_def
        unrated1_def unrated2_def year_key_def astype_int_def py_int_def)
  have w2: "spec_weighted_average [unrated1, unrated2] = Some 8"
    by (simp add: spec_weighted_average_def rated_rows_def sum_votes_def sum_rating_votes_def
        unrated1_def unrated2_def known_votes_def)
  have s1: "stream to_numeric (set_index [(''t1'', None, 10)]) ?one
              = accumulate init_aggregators [unrated1]"
    by (simp add: stream_def process_chunk_def set_index_def chunk_movies_unrated1)
  have y1: "year_weighted_sums (accumulate init_aggregators [unrated1])
              = [(2000, \<lparr>weighted_sum = 0, votes = 10\<rparr>)]"
    by (simp add: accumulate_def init_aggregators_def unrated1_def acc_eval)
  have g1: "genre_stats (accumulate init_aggregators [unrated1]) \<noteq> []"
    by (simp add: accumulate_def init_aggregators_def unrated1_def acc_eval)
  have r1: "yearly_ratings_out (projr (analyse to_numeric [(''t1'', None, 10)] ?one))
              = [(2000, Some 0, 10)]"
    using analyse_report(2)[of to_numeric "[(''t1'', None, 10)]" ?one] g1
    unfolding s1 y1 by (simp add: fin_eval)
  have a1: "analyse to_numeric [(''t1'', None, 10)] ?one
              = Inr (projr (analyse to_numeric [(''t1'', None, 10)] ?one))"
    using analyse_report(1)[of to_numeric "[(''t1'', None, 10)]" ?one] g1
    unfolding s1 y1 by simp
  have m1: "rows_of_year 2000 (all_movies to_numeric (set_index [(''t1'', None, 10)]) ?one)
              = [unrated1]"
    by (simp add: all_movies_def set_index_def chunk_movies_unrated1 rows_of_year_def
        unrated1_def year_key_def astype_int_def py_int_def)
  have w1: "spec_weighted_average [unrated1] = None"
    by (simp add: spec_weighted_average_def rated_rows_def sum_votes_def unrated1_def)
  have r0: "yearly_ratings_out (projr (analyse to_numeric unvoted_ratings ?one)) = []"
    using analyse_report(2)[of to_numeric unvoted_ratings ?one]
    unfolding set_index_def stream_unvoted by (simp add: state0_def fin_eval)
  show ?thesis
    by (intro conjI a2 r2 m2 w2 a1 r1 m1 w1 r0)
qed

end
